theory Spec2Isabelle
  imports Main
begin

section \<open>Data model\<close>

text \<open>
  The server of \<^verbatim>\<open>src/server.js\<close> keeps two collections, users and products, in a document
  store and answers six routes. Documents are records; a field that the schema does not
  require, or that can hold \<^verbatim>\<open>null\<close>, is an \<open>option\<close> (\<open>None\<close> is \<^verbatim>\<open>null\<close> or absent).
  Object ids are natural numbers. A second file of the repository is an earlier revision of
  the same server, whose products also have a required price; the definitions follow
  \<^verbatim>\<open>src/server.js\<close>.
\<close>

type_synonym oid = nat

text \<open>\<^verbatim>\<open>UserSchema\<close>: email, password (the stored hash) and the isAdmin flag.\<close>

record user =
  uid :: oid
  email :: string
  password :: string
  account_isAdmin :: bool

text \<open>\<^verbatim>\<open>ProductSchema\<close>; \<open>cloudinaryId\<close> is the deletion key of the media backend.\<close>

record product =
  pid :: oid
  name :: "string option"
  category :: "string option"
  subCategory :: "string option"
  description :: "string option"
  imageUrl :: "string option"
  cloudinaryId :: "string option"
  featured :: "bool option"

text \<open>The payload of a token, \<^verbatim>\<open>{ id, isAdmin }\<close>; it becomes \<^verbatim>\<open>req.user\<close>.\<close>

record payload =
  sub_id :: oid
  isAdmin :: bool

text \<open>\<^verbatim>\<open>req.file\<close> as the upload middleware leaves it.\<close>

record upload_file =
  path :: string
  filename :: string

text \<open>
  What the upload middleware (\<^verbatim>\<open>uploadMiddleware\<close>, multer with one file under the field
  \<^verbatim>\<open>image\<close>) did with the request: it failed and passed its error on, it found no
  file, or it stored one.
\<close>

datatype upload_outcome = UploadError | NoFile | Stored upload_file

text \<open>
  What the body parser \<^verbatim>\<open>express.json()\<close> did with the request: it parsed the body (or
  left a body that is not JSON alone), or it refused it and passed on an error with the
  status 400 (malformed JSON), 413 (body too large) or 415 (unsupported charset or encoding).
\<close>

datatype json_outcome = BodyParsed | BodyMalformed | BodyTooLarge | BodyUnsupported

text \<open>
  A request that the router has matched to a route: what the body parser made of it, the
  \<^verbatim>\<open>authorization\<close> header, the decoded \<^verbatim>\<open>req.params.id\<close>, the fields of
  \<^verbatim>\<open>req.body\<close> that the handlers read (\<open>None\<close> is \<^verbatim>\<open>undefined\<close>), the upload and
  \<^verbatim>\<open>req.query.limit\<close>. Body fields carry the type of their schema path.
\<close>

record request =
  json_body :: json_outcome
  authorization :: "string option"
  params_id :: string
  body_email :: string
  body_password :: "string option"
  body_name :: "string option"
  body_category :: "string option"
  body_subCategory :: "string option"
  body_description :: "string option"
  body_featured :: "bool option"
  upload :: upload_outcome
  query_limit :: "string option"

text \<open>The messages of the responses, without their decoration.\<close>

datatype message =
    NoTokenProvided
  | InvalidOrExpiredToken
  | AdminNotFound
  | IncorrectPassword
  | InternalServerError
  | AdminAccessRequired
  | MissingRequiredFields
  | ProductNotFound
  | ProductDeleted
  | ServerError

datatype body =
    Message message
  | TokenUser string user
  | ProductAdded product
  | Doc "product option"
  | Docs "product list"
  | DefaultErrorPage

record response =
  status :: nat
  body :: body

definition reply :: "nat \<Rightarrow> body \<Rightarrow> response" where
  "reply s b = \<lparr>status = s, body = b\<rparr>"

text \<open>
  Effects on the outside world, in the order they happen: a deletion call to the media
  backend with its key, an error written to the log, and the writes to the product
  collection. The storing of an uploaded file belongs to the request (its \<open>upload\<close>) and
  is not an event.
\<close>

datatype event =
    CloudDestroy string
  | ErrorLogged
  | DbInsert oid
  | DbUpdate oid
  | DbRemove oid

record world =
  users :: "user list"
  products :: "product list"
  next_id :: oid
  trace :: "event list"

text \<open>
  The services the code calls and the configuration it reads, as parameters:
  \<^item> \<open>jwt_verify\<close>: \<^verbatim>\<open>jwt.verify(_, SECRET_KEY)\<close>; \<open>None\<close> when it throws (bad signature,
    expired);
  \<^item> \<open>jwt_sign\<close>: \<^verbatim>\<open>jwt.sign(_, SECRET_KEY, { expiresIn: "1d" })\<close>;
  \<^item> \<open>bcrypt_compare\<close>: \<^verbatim>\<open>bcrypt.compare(password, hash)\<close>;
  \<^item> \<open>isCloudinaryConfigured\<close>: the three cloud credentials are set;
  \<^item> \<open>destroy_ok\<close>: whether \<^verbatim>\<open>cloudinary.uploader.destroy(key)\<close> resolves (or throws);
  \<^item> \<open>castObjectId\<close>: the cast of \<^verbatim>\<open>req.params.id\<close> to an object id; \<open>None\<close> when the
    string is malformed and the query throws;
  \<^item> \<open>omitUndefined\<close>: whether the store drops an \<^verbatim>\<open>undefined\<close> key of an update
    (Mongoose 6 and later) or writes \<^verbatim>\<open>null\<close> (Mongoose 5).
\<close>

record env =
  jwt_verify :: "string \<Rightarrow> payload option"
  jwt_sign :: "payload \<Rightarrow> string"
  bcrypt_compare :: "string \<Rightarrow> string \<Rightarrow> bool"
  isCloudinaryConfigured :: bool
  destroy_ok :: "string \<Rightarrow> bool"
  castObjectId :: "string \<Rightarrow> oid option"
  omitUndefined :: bool

section \<open>JavaScript helpers\<close>

text \<open>Truthiness of a value that is a string, \<^verbatim>\<open>null\<close> or \<^verbatim>\<open>undefined\<close>.\<close>

definition truthy :: "string option \<Rightarrow> bool" where
  "truthy v = (case v of None \<Rightarrow> False | Some s \<Rightarrow> s \<noteq> [])"

text \<open>\<^verbatim>\<open>s.split(c)\<close> for a one-character separator.\<close>

fun split :: "char \<Rightarrow> string \<Rightarrow> string list" where
  "split c [] = [[]]"
| "split c (x # xs) =
     (if x = c then [] # split c xs
      else (case split c xs of [] \<Rightarrow> [[x]] | w # ws \<Rightarrow> (x # w) # ws))"

text \<open>\<^verbatim>\<open>token.split(" ")[1]\<close>; \<open>None\<close> is \<^verbatim>\<open>undefined\<close>.\<close>

definition bearer :: "string \<Rightarrow> string option" where
  "bearer token = (case split (CHR '' '') token of _ # t # _ \<Rightarrow> Some t | _ \<Rightarrow> None)"

text \<open>
  \<^verbatim>\<open>Number.parseInt(s)\<close> with no radix: leading white space, a sign, the prefix
  \<^verbatim>\<open>0x\<close> for base 16, then the longest run of digits; \<open>None\<close> is \<^verbatim>\<open>NaN\<close>. Numbers are
  unbounded integers here. A \<open>char\<close> of the string is a code unit below 256, so the white
  space of \<^verbatim>\<open>parseInt\<close> is the tab, the line feed, the vertical tab, the form feed, the
  carriage return, the space and the no-break space (U+00A0); its white space above U+00FF
  cannot occur in such a string.
\<close>

definition is_ws :: "char \<Rightarrow> bool" where
  "is_ws c = (c \<in> {CHR '' '', CHR 0x09, CHR 0x0A, CHR 0x0B, CHR 0x0C, CHR 0x0D, CHR 0xA0})"

definition digit_val :: "char \<Rightarrow> nat option" where
  "digit_val c =
     (let n = (of_char c :: nat) in
      if 48 \<le> n \<and> n \<le> 57 then Some (n - 48)
      else if 97 \<le> n \<and> n \<le> 122 then Some (n - 87)
      else if 65 \<le> n \<and> n \<le> 90 then Some (n - 55)
      else None)"

definition is_digit :: "nat \<Rightarrow> char \<Rightarrow> bool" where
  "is_digit radix c = (case digit_val c of None \<Rightarrow> False | Some d \<Rightarrow> d < radix)"

definition digits_value :: "nat \<Rightarrow> string \<Rightarrow> nat" where
  "digits_value radix ds = foldl (\<lambda>a c. a * radix + (case digit_val c of None \<Rightarrow> 0 | Some d \<Rightarrow> d)) 0 ds"

definition parseInt :: "string \<Rightarrow> int option" where
  "parseInt s =
     (let s1 = dropWhile is_ws s;
          neg = (case s1 of c # _ \<Rightarrow> c = CHR ''-'' | [] \<Rightarrow> False);
          s2 = (case s1 of c # r \<Rightarrow> if c = CHR ''-'' \<or> c = CHR ''+'' then r else s1 | [] \<Rightarrow> s1);
          hex = (take 2 s2 = ''0x'' \<or> take 2 s2 = ''0X'');
          radix = (if hex then 16 else 10);
          s3 = (if hex then drop 2 s2 else s2);
          ds = takeWhile (is_digit radix) s3
      in if ds = [] then None
         else Some ((if neg then - 1 else 1) * int (digits_value radix ds)))"

section \<open>The document store\<close>

text \<open>\<^verbatim>\<open>User.findOne({ email })\<close>: the first account with that email.\<close>

definition findOne :: "user list \<Rightarrow> string \<Rightarrow> user option" where
  "findOne us e = find (\<lambda>u. email u = e) us"

text \<open>\<^verbatim>\<open>Product.findById(id)\<close>.\<close>

definition findById :: "product list \<Rightarrow> oid \<Rightarrow> product option" where
  "findById ps i = find (\<lambda>p. pid p = i) ps"

text \<open>The write of an update to the one document with that id, in place.\<close>

fun update_doc :: "oid \<Rightarrow> (product \<Rightarrow> product) \<Rightarrow> product list \<Rightarrow> product list" where
  "update_doc i f [] = []"
| "update_doc i f (p # ps) = (if pid p = i then f p # ps else p # update_doc i f ps)"

fun remove_doc :: "oid \<Rightarrow> product list \<Rightarrow> product list" where
  "remove_doc i [] = []"
| "remove_doc i (p # ps) = (if pid p = i then ps else p # remove_doc i ps)"

text \<open>
  A key of an update whose value is \<^verbatim>\<open>undefined\<close> is dropped or written as \<^verbatim>\<open>null\<close>,
  as the store is configured; any other value is written.
\<close>

definition set_field :: "env \<Rightarrow> 'a option \<Rightarrow> 'a option \<Rightarrow> 'a option" where
  "set_field e v old = (case v of None \<Rightarrow> (if omitUndefined e then old else None) | Some x \<Rightarrow> Some x)"

text \<open>
  \<^verbatim>\<open>Product.findByIdAndUpdate(id, update, { new: true })\<close>: writes when the document
  exists and returns the document after the update, or \<^verbatim>\<open>null\<close>.
\<close>

definition findByIdAndUpdate ::
  "world \<Rightarrow> oid \<Rightarrow> (product \<Rightarrow> product) \<Rightarrow> world \<times> product option" where
  "findByIdAndUpdate w i f =
     (case findById (products w) i of
        None \<Rightarrow> (w, None)
      | Some p \<Rightarrow>
          (w\<lparr>products := update_doc i f (products w), trace := trace w @ [DbUpdate i]\<rparr>,
           Some (f p)))"

text \<open>\<^verbatim>\<open>Product.findByIdAndDelete(id)\<close>.\<close>

definition findByIdAndDelete :: "world \<Rightarrow> oid \<Rightarrow> world" where
  "findByIdAndDelete w i =
     (case findById (products w) i of
        None \<Rightarrow> w
      | Some p \<Rightarrow> w\<lparr>products := remove_doc i (products w), trace := trace w @ [DbRemove i]\<rparr>)"

text \<open>
  \<^verbatim>\<open>new Product(fields)\<close> takes a fresh id, here the store's counter, and
  \<^verbatim>\<open>newProduct.save()\<close> appends the document.
\<close>

definition save :: "world \<Rightarrow> product \<Rightarrow> world" where
  "save w p =
     w\<lparr>products := products w @ [p], next_id := Suc (next_id w),
       trace := trace w @ [DbInsert (pid p)]\<rparr>"

text \<open>
  \<^verbatim>\<open>try { await cloudinary.uploader.destroy(key) } catch (err) { console.error(..) }\<close>:
  the call is made; when it throws, the error is logged and nothing else happens.
\<close>

definition destroy :: "env \<Rightarrow> world \<Rightarrow> string \<Rightarrow> world" where
  "destroy e w key =
     w\<lparr>trace := trace w @ (if destroy_ok e key then [CloudDestroy key]
                            else [CloudDestroy key, ErrorLogged])\<rparr>"

section \<open>Middleware\<close>

text \<open>
  \<^verbatim>\<open>verifyToken\<close>: \<open>Inl\<close> is the response it sends itself, \<open>Inr\<close> the decoded payload
  it attaches as \<^verbatim>\<open>req.user\<close> before calling \<^verbatim>\<open>next()\<close>. \<^verbatim>\<open>jwt.verify\<close> throws on
  \<^verbatim>\<open>undefined\<close>, which the header without a second part gives.
\<close>

definition verifyToken :: "env \<Rightarrow> string option \<Rightarrow> response + payload" where
  "verifyToken e token =
     (if \<not> truthy token then Inl (reply 403 (Message NoTokenProvided))
      else (case token of
              None \<Rightarrow> Inl (reply 403 (Message NoTokenProvided))
            | Some t \<Rightarrow>
                (case bearer t of
                   None \<Rightarrow> Inl (reply 401 (Message InvalidOrExpiredToken))
                 | Some credential \<Rightarrow>
                     (case jwt_verify e credential of
                        None \<Rightarrow> Inl (reply 401 (Message InvalidOrExpiredToken))
                      | Some decoded \<Rightarrow> Inr decoded))))"

text \<open>
  \<^verbatim>\<open>uploadMiddleware\<close>: an error of the upload goes to the framework's default error
  handler, which answers 500; otherwise \<^verbatim>\<open>req.file\<close> is set or left undefined.
\<close>

definition uploadMiddleware :: "upload_outcome \<Rightarrow> response + upload_file option" where
  "uploadMiddleware u =
     (case u of
        UploadError \<Rightarrow> Inl (reply 500 DefaultErrorPage)
      | NoFile \<Rightarrow> Inr None
      | Stored f \<Rightarrow> Inr (Some f))"

section \<open>Handlers\<close>

text \<open>\<^verbatim>\<open>POST /api/login\<close>. \<^verbatim>\<open>bcrypt.compare\<close> rejects a password that is not a string.\<close>

definition post_login :: "env \<Rightarrow> world \<Rightarrow> request \<Rightarrow> world \<times> response" where
  "post_login e w req =
     (case findOne (users w) (body_email req) of
        None \<Rightarrow> (w, reply 400 (Message AdminNotFound))
      | Some admin \<Rightarrow>
          (case body_password req of
             None \<Rightarrow> (w, reply 500 (Message InternalServerError))
           | Some pw \<Rightarrow>
               if \<not> bcrypt_compare e pw (password admin)
               then (w, reply 400 (Message IncorrectPassword))
               else (w, reply 200
                      (TokenUser (jwt_sign e \<lparr>sub_id = uid admin, isAdmin = True\<rparr>) admin))))"

text \<open>The image fields a stored file gives: \<^verbatim>\<open>imageUrl\<close> and \<^verbatim>\<open>cloudinaryId\<close>.\<close>

definition file_imageUrl :: "env \<Rightarrow> upload_file \<Rightarrow> string" where
  "file_imageUrl e f = (if isCloudinaryConfigured e then path f else ''/uploads/'' @ filename f)"

text \<open>\<^verbatim>\<open>POST /api/products\<close>, the handler after both middlewares.\<close>

definition post_products ::
  "env \<Rightarrow> world \<Rightarrow> payload \<Rightarrow> upload_file option \<Rightarrow> request \<Rightarrow> world \<times> response" where
  "post_products e w usr file req =
     (if \<not> isAdmin usr then (w, reply 403 (Message AdminAccessRequired))
      else if \<not> truthy (body_name req) \<or> \<not> truthy (body_category req)
      then (w, reply 400 (Message MissingRequiredFields))
      else
        (let imageUrl' = (case file of None \<Rightarrow> None | Some f \<Rightarrow> Some (file_imageUrl e f));
             cloudinaryId' =
               (case file of
                  None \<Rightarrow> None
                | Some f \<Rightarrow> if isCloudinaryConfigured e then Some (filename f) else None);
             newProduct =
               \<lparr>pid = next_id w, name = body_name req, category = body_category req,
                subCategory = body_subCategory req, description = body_description req,
                imageUrl = imageUrl', cloudinaryId = cloudinaryId', featured = Some False\<rparr>
         in (save w newProduct, reply 201 (ProductAdded newProduct))))"

text \<open>\<^verbatim>\<open>PUT /api/products/:id\<close>, the handler after both middlewares.\<close>

definition put_products ::
  "env \<Rightarrow> world \<Rightarrow> payload \<Rightarrow> upload_file option \<Rightarrow> request \<Rightarrow> world \<times> response" where
  "put_products e w usr file req =
     (if \<not> isAdmin usr then (w, reply 403 (Message AdminAccessRequired))
      else
        (case castObjectId e (params_id req) of
           None \<Rightarrow> (w, reply 500 (Message ServerError))
         | Some productId \<Rightarrow>
             (case findById (products w) productId of
                None \<Rightarrow> (w, reply 404 (Message ProductNotFound))
              | Some product \<Rightarrow>
                  (let w1 =
                         (case file of
                            None \<Rightarrow> w
                          | Some f \<Rightarrow>
                              (case cloudinaryId product of
                                 None \<Rightarrow> w
                               | Some key \<Rightarrow>
                                   if isCloudinaryConfigured e \<and> truthy (Some key)
                                   then destroy e w key else w));
                       imageUrl' =
                         (case file of
                            None \<Rightarrow> imageUrl product
                          | Some f \<Rightarrow> Some (file_imageUrl e f));
                       cloudinaryId' =
                         (case file of
                            None \<Rightarrow> cloudinaryId product
                          | Some f \<Rightarrow>
                              if isCloudinaryConfigured e then Some (filename f)
                              else cloudinaryId product);
                       (w2, updatedProduct) =
                         findByIdAndUpdate w1 productId
                           (\<lambda>p. p\<lparr>name := set_field e (body_name req) (name p),
                                  category := set_field e (body_category req) (category p),
                                  subCategory := set_field e (body_subCategory req) (subCategory p),
                                  description := set_field e (body_description req) (description p),
                                  imageUrl := imageUrl',
                                  cloudinaryId := cloudinaryId'\<rparr>)
                   in (w2, reply 200 (Doc updatedProduct))))))"

text \<open>\<^verbatim>\<open>DELETE /api/products/:id\<close>, the handler after \<^verbatim>\<open>verifyToken\<close>.\<close>

definition delete_products ::
  "env \<Rightarrow> world \<Rightarrow> payload \<Rightarrow> request \<Rightarrow> world \<times> response" where
  "delete_products e w usr req =
     (if \<not> isAdmin usr then (w, reply 403 (Message AdminAccessRequired))
      else
        (case castObjectId e (params_id req) of
           None \<Rightarrow> (w, reply 500 (Message ServerError))
         | Some i \<Rightarrow>
             (case findById (products w) i of
                None \<Rightarrow> (w, reply 404 (Message ProductNotFound))
              | Some product \<Rightarrow>
                  (let w1 =
                         (case cloudinaryId product of
                            None \<Rightarrow> w
                          | Some key \<Rightarrow>
                              if isCloudinaryConfigured e \<and> truthy (Some key)
                              then destroy e w key else w)
                   in (findByIdAndDelete w1 i, reply 200 (Message ProductDeleted))))))"

text \<open>\<^verbatim>\<open>GET /api/products\<close>. \<^verbatim>\<open>NaN > 0\<close> is false.\<close>

definition get_products :: "world \<Rightarrow> request \<Rightarrow> world \<times> response" where
  "get_products w req =
     (let limit =
            (case query_limit req of
               None \<Rightarrow> Some 0
             | Some s \<Rightarrow> if s = [] then Some 0 else parseInt s);
          found =
            (case limit of
               None \<Rightarrow> products w
             | Some n \<Rightarrow> if n > 0 then take (nat n) (products w) else products w)
      in (w, reply 200 (Docs found)))"

text \<open>\<^verbatim>\<open>PATCH /api/products/:id\<close>, the handler after \<^verbatim>\<open>verifyToken\<close>.\<close>

definition patch_products ::
  "env \<Rightarrow> world \<Rightarrow> payload \<Rightarrow> request \<Rightarrow> world \<times> response" where
  "patch_products e w usr req =
     (if \<not> isAdmin usr then (w, reply 403 (Message AdminAccessRequired))
      else
        (case castObjectId e (params_id req) of
           None \<Rightarrow> (w, reply 500 (Message ServerError))
         | Some i \<Rightarrow>
             (let (w', updatedProduct) =
                    findByIdAndUpdate w i
                      (\<lambda>p. p\<lparr>featured := set_field e (body_featured req) (featured p)\<rparr>)
              in (w', reply 200 (Doc updatedProduct)))))"

section \<open>Routes\<close>

text \<open>
  The routes as registered (\<^verbatim>\<open>app.post(path, verifyToken, uploadMiddleware, handler)\<close>
  and the like): the middlewares of the route in their order, then the handler. \<open>serve\<close>
  is what happens to a request once it has come to its route.
\<close>

datatype route =
    Login
  | AddProduct
  | UpdateProduct
  | DeleteProduct
  | ListProducts
  | ToggleFeatured

definition serve :: "env \<Rightarrow> world \<Rightarrow> route \<Rightarrow> request \<Rightarrow> world \<times> response" where
  "serve e w r req =
     (case r of
        Login \<Rightarrow> post_login e w req
      | ListProducts \<Rightarrow> get_products w req
      | AddProduct \<Rightarrow>
          (case verifyToken e (authorization req) of
             Inl res \<Rightarrow> (w, res)
           | Inr usr \<Rightarrow>
               (case uploadMiddleware (upload req) of
                  Inl res \<Rightarrow> (w, res)
                | Inr file \<Rightarrow> post_products e w usr file req))
      | UpdateProduct \<Rightarrow>
          (case verifyToken e (authorization req) of
             Inl res \<Rightarrow> (w, res)
           | Inr usr \<Rightarrow>
               (case uploadMiddleware (upload req) of
                  Inl res \<Rightarrow> (w, res)
                | Inr file \<Rightarrow> put_products e w usr file req))
      | DeleteProduct \<Rightarrow>
          (case verifyToken e (authorization req) of
             Inl res \<Rightarrow> (w, res)
           | Inr usr \<Rightarrow> delete_products e w usr req)
      | ToggleFeatured \<Rightarrow>
          (case verifyToken e (authorization req) of
             Inl res \<Rightarrow> (w, res)
           | Inr usr \<Rightarrow> patch_products e w usr req))"

text \<open>The routes that check the admin role.\<close>

definition admin_only :: "route \<Rightarrow> bool" where
  "admin_only r = (r = AddProduct \<or> r = UpdateProduct \<or> r = DeleteProduct \<or> r = ToggleFeatured)"

text \<open>
  \<^verbatim>\<open>app.use(express.json())\<close>, the first middleware of every route: an error of the
  parser goes to the framework's default error handler, which answers with the error's
  status; otherwise the request goes on.
\<close>

definition express_json :: "json_outcome \<Rightarrow> response + unit" where
  "express_json j =
     (case j of
        BodyParsed \<Rightarrow> Inr ()
      | BodyMalformed \<Rightarrow> Inl (reply 400 DefaultErrorPage)
      | BodyTooLarge \<Rightarrow> Inl (reply 413 DefaultErrorPage)
      | BodyUnsupported \<Rightarrow> Inl (reply 415 DefaultErrorPage))"

text \<open>
  The application: the body parser, then the route. (\<^verbatim>\<open>cors()\<close>, between the two,
  only sets headers on these routes.)
\<close>

definition app :: "env \<Rightarrow> world \<Rightarrow> route \<Rightarrow> request \<Rightarrow> world \<times> response" where
  "app e w r req =
     (case express_json (json_body req) of
        Inl res \<Rightarrow> (w, res)
      | Inr _ \<Rightarrow> serve e w r req)"

text \<open>
  The worlds the server reaches from an empty product collection by answering requests,
  the configuration fixed; and the same when every request may meet another configuration.
\<close>

inductive reachable :: "env \<Rightarrow> world \<Rightarrow> bool" for e :: env where
  start: "products w = [] \<Longrightarrow> reachable e w"
| step: "reachable e w \<Longrightarrow> reachable e (fst (app e w r req))"

inductive reachable_any :: "world \<Rightarrow> bool" where
  start_any: "products w = [] \<Longrightarrow> reachable_any w"
| step_any: "reachable_any w \<Longrightarrow> reachable_any (fst (app e w r req))"

section \<open>Clients and sample inputs\<close>

text \<open>
  The decimal numeral of a number, as a client writes a limit into the query string
  (\<^verbatim>\<open>?limit=2\<close>).
\<close>

fun decimal :: "nat \<Rightarrow> string" where
  "decimal n =
     (if n < 10 then [char_of (48 + n)]
      else decimal (n div 10) @ [char_of (48 + n mod 10)])"

declare decimal.simps [simp del]

text \<open>
  A configuration with the cloud backend, in which two tokens verify (one with the admin
  claim, one without), every deletion call to the media backend fails and three id strings
  are well formed; and the same with the local disk instead of the cloud.
\<close>

definition env_cloud :: env where
  "env_cloud =
     \<lparr>jwt_verify =
        (\<lambda>t. if t = ''admin.jwt'' then Some \<lparr>sub_id = 1, isAdmin = True\<rparr>
             else if t = ''guest.jwt'' then Some \<lparr>sub_id = 2, isAdmin = False\<rparr>
             else None),
      jwt_sign = (\<lambda>p. if isAdmin p then ''admin.jwt'' else ''guest.jwt''),
      bcrypt_compare = (\<lambda>pw h. h = ''$2a$'' @ pw),
      isCloudinaryConfigured = True,
      destroy_ok = (\<lambda>k. False),
      castObjectId =
        (\<lambda>s. if s = ''1'' then Some 1 else if s = ''2'' then Some 2
             else if s = ''9'' then Some 9 else None),
      omitUndefined = True\<rparr>"

definition env_local :: env where
  "env_local = env_cloud\<lparr>isCloudinaryConfigured := False\<rparr>"

text \<open>A request with no header, no body field, no file and no query.\<close>

definition bare_request :: request where
  "bare_request =
     \<lparr>json_body = BodyParsed, authorization = None, params_id = ''1'', body_email = ''owner@shop.test'',
      body_password = None, body_name = None, body_category = None,
      body_subCategory = None, body_description = None, body_featured = None,
      upload = NoFile, query_limit = None\<rparr>"

definition guest_request :: request where
  "guest_request = bare_request\<lparr>authorization := Some ''Bearer guest.jwt''\<rparr>"

definition admin_request :: request where
  "admin_request = bare_request\<lparr>authorization := Some ''Bearer admin.jwt''\<rparr>"

text \<open>A product with a cloud image, and a world with one account and some products.\<close>

definition chair :: "oid \<Rightarrow> product" where
  "chair i =
     \<lparr>pid = i, name = Some ''chair'', category = Some ''living'', subCategory = None,
      description = None, imageUrl = Some ''https://cdn.test/x.png'',
      cloudinaryId = Some ''dream-house-products/x'', featured = Some False\<rparr>"

definition shop :: "product list \<Rightarrow> world" where
  "shop ps =
     \<lparr>users = [\<lparr>uid = 1, email = ''owner@shop.test'', password = ''$2a$secret'',
                account_isAdmin = False\<rparr>],
      products = ps, next_id = Suc (length ps), trace = []\<rparr>"

text \<open>A file as the disk storage leaves it, under its generated name.\<close>

definition photo :: upload_file where
  "photo = \<lparr>path = ''uploads/1700000000000-123456789.png'',
             filename = ''1700000000000-123456789.png''\<rparr>"

text \<open>A request of the admin that creates a lamp with a photo, and the lamp on local disk.\<close>

definition lamp_request :: request where
  "lamp_request =
     admin_request\<lparr>body_name := Some ''lamp'', body_category := Some ''light'',
       upload := Stored photo\<rparr>"

definition local_lamp :: product where
  "local_lamp =
     \<lparr>pid = 1, name = Some ''lamp'', category = Some ''light'', subCategory = None,
      description = None, imageUrl = Some ''/uploads/1700000000000-123456789.png'',
      cloudinaryId = None, featured = Some False\<rparr>"

section \<open>Invariants\<close>

text \<open>The image url and the deletion key are both there or both missing.\<close>

definition image_key_paired :: "product \<Rightarrow> bool" where
  "image_key_paired p = ((imageUrl p = None) = (cloudinaryId p = None))"

text \<open>
  What the handlers keep of the image fields: a key comes with an url; with the cloud
  backend the two are paired, with the local disk there is no key.
\<close>

definition image_fields_ok :: "env \<Rightarrow> product \<Rightarrow> bool" where
  "image_fields_ok e p =
     ((cloudinaryId p \<noteq> None \<longrightarrow> imageUrl p \<noteq> None)
      \<and> (if isCloudinaryConfigured e then image_key_paired p else cloudinaryId p = None))"

text \<open>A product with a deletion key has an image url.\<close>

definition key_has_url :: "product \<Rightarrow> bool" where
  "key_has_url p = (cloudinaryId p \<noteq> None \<longrightarrow> imageUrl p \<noteq> None)"

text \<open>The ids of the collection are distinct and below the store's counter.\<close>

definition ids_fresh :: "world \<Rightarrow> bool" where
  "ids_fresh w = (distinct (map pid (products w)) \<and> (\<forall>p\<in>set (products w). pid p < next_id w))"

section \<open>Facts about the store\<close>

lemma findById_Some: "findById ps i = Some p \<Longrightarrow> p \<in> set ps \<and> pid p = i"
  by (induction ps) (auto simp add: findById_def split: if_splits)

lemma findById_None: "findById ps i = None \<longleftrightarrow> i \<notin> pid ` set ps"
  by (induction ps) (auto simp add: findById_def)

lemma length_update_doc: "length (update_doc i f ps) = length ps"
  by (induction ps) auto

lemma update_doc_nth:
  "k < length ps \<Longrightarrow>
     update_doc i f ps ! k = ps ! k \<or> (pid (ps ! k) = i \<and> update_doc i f ps ! k = f (ps ! k))"
proof (induction ps arbitrary: k)
  case Nil
  then show ?case by simp
next
  case (Cons p ps)
  then show ?case by (cases k) auto
qed

lemma findById_update_doc:
  "(\<And>p. pid (f p) = pid p) \<Longrightarrow>
     findById (update_doc i f ps) j = (if j = i then map_option f (findById ps i) else findById ps j)"
  by (induction ps) (auto simp add: findById_def)

lemma update_doc_fixed:
  "findById ps i = Some p \<Longrightarrow> f p = p \<Longrightarrow> update_doc i f ps = ps"
  by (induction ps) (auto simp add: findById_def split: if_splits)

lemma update_doc_twice:
  "(\<And>p. pid (f p) = pid p) \<Longrightarrow>
     update_doc i g (update_doc i f ps) = update_doc i (\<lambda>p. g (f p)) ps"
  by (induction ps) auto

lemma set_update_doc:
  "q \<in> set (update_doc i f ps) \<Longrightarrow>
     q \<in> set ps \<or> (\<exists>p. findById ps i = Some p \<and> q = f p)"
  by (induction ps) (auto simp add: findById_def split: if_splits)

lemma set_remove_doc: "q \<in> set (remove_doc i ps) \<Longrightarrow> q \<in> set ps"
  by (induction ps) (auto split: if_splits)

lemma findById_remove_doc_other:
  "j \<noteq> i \<Longrightarrow> findById (remove_doc i ps) j = findById ps j"
  by (induction ps) (auto simp add: findById_def)

lemma findById_remove_doc_same:
  "distinct (map pid ps) \<Longrightarrow> findById (remove_doc i ps) i = None"
  by (induction ps) (auto simp add: findById_def findById_None [unfolded findById_def])

lemma length_remove_doc:
  "findById ps i = Some p \<Longrightarrow> Suc (length (remove_doc i ps)) = length ps"
  by (induction ps) (auto simp add: findById_def split: if_splits)

lemma map_pid_update_doc:
  "(\<And>p. pid (f p) = pid p) \<Longrightarrow> map pid (update_doc i f ps) = map pid ps"
  by (induction ps) auto

lemma distinct_remove_doc: "distinct (map pid ps) \<Longrightarrow> distinct (map pid (remove_doc i ps))"
  by (induction ps) (auto dest: set_remove_doc)

lemma products_destroy: "products (destroy e w key) = products w"
  by (simp add: destroy_def)

section \<open>Facts about \<open>parseInt\<close>\<close>

lemma is_digit_10: "is_digit 10 c \<longleftrightarrow> 48 \<le> (of_char c :: nat) \<and> (of_char c :: nat) \<le> 57"
  by (auto simp add: is_digit_def digit_val_def Let_def)

lemma digit_val_char: "(d::nat) < 10 \<Longrightarrow> digit_val (char_of (48 + d)) = Some d"
  by (simp add: digit_val_def Let_def)

lemma is_digit_char: "(d::nat) < 10 \<Longrightarrow> is_digit 10 (char_of (48 + d))"
  by (simp add: is_digit_def digit_val_char)

lemma digit_not_special:
  assumes "is_digit 10 c"
  shows "\<not> is_ws c" and "c \<noteq> CHR ''-''" and "c \<noteq> CHR ''+''"
    and "c \<noteq> CHR ''x''" and "c \<noteq> CHR ''X''"
  using assms by (auto simp add: is_digit_10 is_ws_def)

lemma decimal_digits: "c \<in> set (decimal n) \<Longrightarrow> is_digit 10 c"
proof (induction n arbitrary: c rule: decimal.induct)
  case (1 n)
  show ?case
  proof (cases "n < 10")
    case True
    with "1.prems" have "c = char_of (48 + n)"
      by (simp add: decimal.simps [of n])
    with True show ?thesis by (simp only: is_digit_char)
  next
    case False
    with "1.prems" have "c \<in> set (decimal (n div 10)) \<or> c = char_of (48 + n mod 10)"
      by (auto simp add: decimal.simps [of n])
    moreover have "is_digit 10 (char_of (48 + n mod 10))"
      by (rule is_digit_char) simp
    ultimately show ?thesis using "1.IH" [OF False] by blast
  qed
qed

lemma decimal_nonempty: "decimal n \<noteq> []"
  by (subst decimal.simps) simp

lemma decimal_hd: "\<exists>c cs. decimal n = c # cs \<and> is_digit 10 c"
  using decimal_nonempty [of n] decimal_digits [of _ n]
  by (cases "decimal n") auto

lemma decimal_takeWhile: "takeWhile (is_digit 10) (decimal n) = decimal n"
  using decimal_digits by (simp add: takeWhile_eq_all_conv)

lemma decimal_not_hex: "take 2 (decimal n) \<noteq> ''0x''" "take 2 (decimal n) \<noteq> ''0X''"
proof -
  have "CHR ''x'' \<notin> set (decimal n)" "CHR ''X'' \<notin> set (decimal n)"
    using decimal_digits [of _ n] digit_not_special(4,5) by blast+
  moreover have "set (take 2 (decimal n)) \<subseteq> set (decimal n)"
    by (rule set_take_subset)
  ultimately show "take 2 (decimal n) \<noteq> ''0x''" "take 2 (decimal n) \<noteq> ''0X''"
    by auto
qed

lemma digits_value_snoc:
  "digits_value r (ds @ [c]) =
     digits_value r ds * r + (case digit_val c of None \<Rightarrow> 0 | Some d \<Rightarrow> d)"
  by (simp add: digits_value_def)

lemma digits_value_decimal: "digits_value 10 (decimal n) = n"
proof (induction n rule: decimal.induct)
  case (1 n)
  show ?case
  proof (cases "n < 10")
    case True
    then show ?thesis
      by (simp add: decimal.simps [of n] digits_value_def digit_val_char)
  next
    case False
    have "n mod 10 < 10" by simp
    then have "digit_val (char_of (48 + n mod 10)) = Some (n mod 10)"
      by (rule digit_val_char)
    with False "1.IH" show ?thesis
      by (simp add: decimal.simps [of n] digits_value_snoc)
  qed
qed

text \<open>A string of decimal digits parses to its value, and to the opposite after a minus.\<close>

lemma parseInt_unsigned:
  assumes "s = c # cs" and "is_digit 10 c"
    and "take 2 s \<noteq> ''0x''" and "take 2 s \<noteq> ''0X''"
    and "takeWhile (is_digit 10) s = s"
  shows "parseInt s = Some (int (digits_value 10 s))"
proof -
  note c = digit_not_special [OF assms(2)]
  have s1: "dropWhile is_ws s = s"
    using assms(1) c(1) by simp
  have neg: "(case s of c # _ \<Rightarrow> c = CHR ''-'' | [] \<Rightarrow> False) = False"
    using assms(1) c(2) by simp
  have s2: "(case s of c # r \<Rightarrow> if c = CHR ''-'' \<or> c = CHR ''+'' then r else s | [] \<Rightarrow> s) = s"
    using assms(1) c(2,3) by simp
  have hex: "(take 2 s = ''0x'' \<or> take 2 s = ''0X'') = False"
    using assms(3,4) by blast
  have ne: "s \<noteq> []" using assms(1) by simp
  show ?thesis
    unfolding parseInt_def Let_def s1 neg s2 hex
    using ne by (simp add: assms(5))
qed

lemma parseInt_negative:
  assumes "s = c # cs" and "is_digit 10 c"
    and "take 2 s \<noteq> ''0x''" and "take 2 s \<noteq> ''0X''"
    and "takeWhile (is_digit 10) s = s"
  shows "parseInt (CHR ''-'' # s) = Some (- int (digits_value 10 s))"
proof -
  have s1: "dropWhile is_ws (CHR ''-'' # s) = CHR ''-'' # s"
    by (simp add: is_ws_def)
  have hex: "(take 2 s = ''0x'' \<or> take 2 s = ''0X'') = False"
    using assms(3,4) by blast
  have ne: "s \<noteq> []" using assms(1) by simp
  show ?thesis
    unfolding parseInt_def Let_def s1 list.case
    using ne by (simp add: hex assms(5))
qed

lemma parseInt_decimal: "parseInt (decimal n) = Some (int n)"
proof -
  obtain c cs where d: "decimal n = c # cs" and c: "is_digit 10 c"
    using decimal_hd by blast
  show ?thesis
    using parseInt_unsigned [OF d c decimal_not_hex decimal_takeWhile]
    by (simp add: digits_value_decimal)
qed

lemma parseInt_minus_decimal: "parseInt (CHR ''-'' # decimal n) = Some (- int n)"
proof -
  obtain c cs where d: "decimal n = c # cs" and c: "is_digit 10 c"
    using decimal_hd by blast
  show ?thesis
    using parseInt_negative [OF d c decimal_not_hex decimal_takeWhile]
    by (simp add: digits_value_decimal)
qed

section \<open>Facts about the sample inputs\<close>

lemma verify_guest:
  "verifyToken env_cloud (Some ''Bearer guest.jwt'') = Inr \<lparr>sub_id = 2, isAdmin = False\<rparr>"
  by (simp add: verifyToken_def truthy_def bearer_def env_cloud_def)

lemma verify_admin:
  "verifyToken env_cloud (Some ''Bearer admin.jwt'') = Inr \<lparr>sub_id = 1, isAdmin = True\<rparr>"
  by (simp add: verifyToken_def truthy_def bearer_def env_cloud_def)

lemma verify_local:
  "verifyToken env_local t = verifyToken env_cloud t"
  by (simp add: verifyToken_def env_local_def split: option.splits)

lemma findOne_None: "e \<notin> email ` set us \<Longrightarrow> findOne us e = None"
  by (force simp add: findOne_def find_None_iff)

section \<open>Authorization\<close>

lemma app_parsed: "json_body req = BodyParsed \<Longrightarrow> app e w r req = serve e w r req"
  by (simp add: app_def express_json_def)

lemma app_refused:
  "json_body req = BodyMalformed \<Longrightarrow> app e w r req = (w, reply 400 DefaultErrorPage)"
  "json_body req = BodyTooLarge \<Longrightarrow> app e w r req = (w, reply 413 DefaultErrorPage)"
  "json_body req = BodyUnsupported \<Longrightarrow> app e w r req = (w, reply 415 DefaultErrorPage)"
  by (simp_all add: app_def express_json_def)

lemma parsed_bare: "json_body bare_request = BodyParsed"
  by (simp add: bare_request_def)

text \<open>
  C1, as stated, fails: the upload middleware runs between \<^verbatim>\<open>verifyToken\<close> and the
  handler that checks the role. A request to \<^verbatim>\<open>POST /api/products\<close> with a valid token
  whose \<open>isAdmin\<close> claim is false, a body the parser accepts and an upload that fails is
  answered 500.
\<close>

theorem non_admin_upload_error_counterexample:
  "json_body (guest_request\<lparr>upload := UploadError\<rparr>) = BodyParsed
   \<and> verifyToken env_cloud (authorization (guest_request\<lparr>upload := UploadError\<rparr>))
     = Inr \<lparr>sub_id = 2, isAdmin = False\<rparr>
   \<and> admin_only AddProduct
   \<and> status (snd (app env_cloud (shop []) AddProduct (guest_request\<lparr>upload := UploadError\<rparr>)))
       = 500"
proof -
  have j: "json_body (guest_request\<lparr>upload := UploadError\<rparr>) = BodyParsed"
    by (simp add: guest_request_def parsed_bare)
  show ?thesis
    by (simp add: j app_parsed [OF j])
       (simp add: guest_request_def verify_guest admin_only_def serve_def uploadMiddleware_def
          reply_def)
qed

text \<open>
  C1, amended: a request to an admin-only route with a valid token whose \<open>isAdmin\<close> claim
  is false and a body that the body parser accepts is answered 403, with the world
  unchanged, on \<^verbatim>\<open>DELETE\<close> and \<^verbatim>\<open>PATCH\<close> always and on \<^verbatim>\<open>POST\<close> and \<^verbatim>\<open>PUT\<close> when
  the upload did not fail; when it failed the answer is the 500 of the upload error. When
  the body parser refuses the body, the answer is the parser's 400, 413 or 415, before the
  token is looked at. The answer is never 401 and never 404.
\<close>

theorem non_admin_forbidden:
  assumes "verifyToken e (authorization req) = Inr usr" and "\<not> isAdmin usr" and "admin_only r"
  shows "(json_body req = BodyParsed \<longrightarrow>
            app e w r req =
              (w, if (r = AddProduct \<or> r = UpdateProduct) \<and> upload req = UploadError
                  then reply 500 DefaultErrorPage
                  else reply 403 (Message AdminAccessRequired)))
         \<and> (json_body req = BodyMalformed \<longrightarrow> app e w r req = (w, reply 400 DefaultErrorPage))
         \<and> (json_body req = BodyTooLarge \<longrightarrow> app e w r req = (w, reply 413 DefaultErrorPage))
         \<and> (json_body req = BodyUnsupported \<longrightarrow> app e w r req = (w, reply 415 DefaultErrorPage))
         \<and> status (snd (app e w r req)) \<noteq> 401
         \<and> status (snd (app e w r req)) \<noteq> 404"
proof -
  have s: "serve e w r req =
              (w, if (r = AddProduct \<or> r = UpdateProduct) \<and> upload req = UploadError
                  then reply 500 DefaultErrorPage
                  else reply 403 (Message AdminAccessRequired))"
    using assms
    by (cases r; cases "upload req")
       (simp_all add: admin_only_def serve_def uploadMiddleware_def post_products_def
          put_products_def delete_products_def patch_products_def)
  show ?thesis
    by (cases "json_body req") (simp_all add: app_parsed app_refused s reply_def)
qed

theorem non_admin_forbidden_witness:
  "verifyToken env_cloud (authorization guest_request) = Inr \<lparr>sub_id = 2, isAdmin = False\<rparr>
   \<and> admin_only UpdateProduct
   \<and> json_body guest_request = BodyParsed
   \<and> app env_cloud (shop [chair 1]) UpdateProduct guest_request
       = (shop [chair 1], reply 403 (Message AdminAccessRequired))
   \<and> app env_cloud (shop [chair 1]) UpdateProduct (guest_request\<lparr>json_body := BodyMalformed\<rparr>)
       = (shop [chair 1], reply 400 DefaultErrorPage)"
proof -
  have v: "verifyToken env_cloud (authorization guest_request) = Inr \<lparr>sub_id = 2, isAdmin = False\<rparr>"
    by (simp add: guest_request_def verify_guest)
  have v': "verifyToken env_cloud (authorization (guest_request\<lparr>json_body := BodyMalformed\<rparr>))
              = Inr \<lparr>sub_id = 2, isAdmin = False\<rparr>"
    by (simp add: guest_request_def verify_guest)
  have a: "admin_only UpdateProduct"
    by (simp add: admin_only_def)
  have n: "\<not> isAdmin \<lparr>sub_id = 2, isAdmin = False\<rparr>"
    by simp
  have u: "upload guest_request = NoFile"
    by (simp add: guest_request_def bare_request_def)
  have j: "json_body guest_request = BodyParsed"
    by (simp add: guest_request_def parsed_bare)
  show ?thesis
    using non_admin_forbidden [OF v n a, of "shop [chair 1]"]
      non_admin_forbidden [OF v' n a, of "shop [chair 1]"] v a u j
    by simp
qed

text \<open>
  C2, as stated, fails: a request to a protected route with no \<^verbatim>\<open>authorization\<close> header
  (and a body the parser accepts) is answered 403, the status of the insufficient role, not
  401.
\<close>

theorem missing_header_counterexample:
  "json_body bare_request = BodyParsed \<and> authorization bare_request = None
   \<and> admin_only DeleteProduct
   \<and> status (snd (app env_cloud (shop [chair 1]) DeleteProduct bare_request)) = 403
   \<and> status (snd (app env_cloud (shop [chair 1]) DeleteProduct bare_request)) \<noteq> 401"
  by (simp add: parsed_bare app_parsed [OF parsed_bare])
     (simp add: bare_request_def admin_only_def serve_def verifyToken_def truthy_def reply_def)

text \<open>
  C2, amended: a request to a protected route whose body the body parser accepts and whose
  \<^verbatim>\<open>authorization\<close> header is absent or empty is answered 403 with the no-token
  message, and the world is unchanged; 401 answers a header that is there but has no second
  part, or whose second part does not verify. When the body parser refuses the body, the
  answer is the parser's 400, 413 or 415, whatever the header.
\<close>

theorem missing_credential:
  assumes "admin_only r"
  shows "(json_body req = BodyParsed \<and>
            (authorization req = None \<or> authorization req = Some []) \<longrightarrow>
            app e w r req = (w, reply 403 (Message NoTokenProvided)))
       \<and> (\<forall>t. json_body req = BodyParsed \<and> authorization req = Some t \<and> t \<noteq> [] \<and>
            (bearer t = None \<or> (\<exists>c. bearer t = Some c \<and> jwt_verify e c = None)) \<longrightarrow>
            app e w r req = (w, reply 401 (Message InvalidOrExpiredToken)))
       \<and> (json_body req = BodyMalformed \<longrightarrow> app e w r req = (w, reply 400 DefaultErrorPage))
       \<and> (json_body req = BodyTooLarge \<longrightarrow> app e w r req = (w, reply 413 DefaultErrorPage))
       \<and> (json_body req = BodyUnsupported \<longrightarrow> app e w r req = (w, reply 415 DefaultErrorPage))"
proof -
  have "serve e w r req = (w, reply 403 (Message NoTokenProvided))"
    if "authorization req = None \<or> authorization req = Some []"
    using assms that
    by (cases r) (auto simp add: admin_only_def serve_def verifyToken_def truthy_def)
  moreover have "serve e w r req = (w, reply 401 (Message InvalidOrExpiredToken))"
    if "authorization req = Some t \<and> t \<noteq> [] \<and>
            (bearer t = None \<or> (\<exists>c. bearer t = Some c \<and> jwt_verify e c = None))" for t
    using assms that
    by (cases r) (auto simp add: admin_only_def serve_def verifyToken_def truthy_def)
  ultimately show ?thesis
    by (auto simp add: app_parsed app_refused)
qed

theorem missing_credential_witness:
  "admin_only ToggleFeatured \<and> json_body bare_request = BodyParsed
   \<and> authorization bare_request = None
   \<and> app env_cloud (shop [chair 1]) ToggleFeatured bare_request
       = (shop [chair 1], reply 403 (Message NoTokenProvided))
   \<and> bearer ''Bearer'' = None
   \<and> app env_cloud (shop [chair 1]) ToggleFeatured (bare_request\<lparr>authorization := Some ''Bearer''\<rparr>)
       = (shop [chair 1], reply 401 (Message InvalidOrExpiredToken))
   \<and> app env_cloud (shop [chair 1]) ToggleFeatured (bare_request\<lparr>json_body := BodyMalformed\<rparr>)
       = (shop [chair 1], reply 400 DefaultErrorPage)"
proof -
  have a: "admin_only ToggleFeatured"
    by (simp add: admin_only_def)
  have h: "authorization bare_request = None"
    by (simp add: bare_request_def)
  have b: "bearer ''Bearer'' = None"
    by (simp add: bearer_def)
  show ?thesis
    using missing_credential [OF a, of bare_request env_cloud "shop [chair 1]"]
      missing_credential [OF a, of "bare_request\<lparr>authorization := Some ''Bearer''\<rparr>" env_cloud
        "shop [chair 1]"]
      missing_credential [OF a, of "bare_request\<lparr>json_body := BodyMalformed\<rparr>" env_cloud
        "shop [chair 1]"] a h b parsed_bare
    by simp
qed

section \<open>Login\<close>

text \<open>
  C3: a login whose email matches no stored account is answered 400 with the
  account-not-found message; a login with the email of an account and a password that
  \<^verbatim>\<open>bcrypt.compare\<close> does not match with the stored hash is answered 400 with the
  bad-password message. Whether the login succeeds is the answer of \<^verbatim>\<open>bcrypt.compare\<close>
  and nothing else: the plaintext password is not compared with the stored value for
  equality.
\<close>

theorem login_rejections:
  "(body_email req \<notin> email ` set (users w) \<longrightarrow>
      post_login e w req = (w, reply 400 (Message AdminNotFound)))
   \<and> (\<forall>u pw. findOne (users w) (body_email req) = Some u \<and> body_password req = Some pw \<longrightarrow>
        (\<not> bcrypt_compare e pw (password u) \<longrightarrow>
           post_login e w req = (w, reply 400 (Message IncorrectPassword)))
      \<and> (bcrypt_compare e pw (password u) \<longrightarrow> status (snd (post_login e w req)) = 200))"
  using findOne_None [of "body_email req" "users w"]
  by (auto simp add: post_login_def reply_def)

text \<open>
  The witness: an unknown email; then the account's own stored string as the password,
  which is rejected; then the password that the comparison accepts.
\<close>

theorem login_rejections_witness:
  "post_login env_cloud (shop []) (bare_request\<lparr>body_email := ''nobody@shop.test''\<rparr>)
     = (shop [], reply 400 (Message AdminNotFound))
   \<and> post_login env_cloud (shop []) (bare_request\<lparr>body_password := Some ''$2a$secret''\<rparr>)
     = (shop [], reply 400 (Message IncorrectPassword))
   \<and> status (snd (post_login env_cloud (shop []) (bare_request\<lparr>body_password := Some ''secret''\<rparr>)))
     = 200"
proof -
  let ?u = "\<lparr>uid = 1, email = ''owner@shop.test'', password = ''$2a$secret'', account_isAdmin = False\<rparr>"
  have f: "findOne (users (shop [])) ''owner@shop.test'' = Some ?u"
    by (simp add: findOne_def shop_def)
  have n: "''nobody@shop.test'' \<notin> email ` set (users (shop []))"
    by (simp add: shop_def)
  have c1: "\<not> bcrypt_compare env_cloud ''$2a$secret'' (password ?u)"
    by (simp add: env_cloud_def)
  have c2: "bcrypt_compare env_cloud ''secret'' (password ?u)"
    by (simp add: env_cloud_def)
  show ?thesis
    using login_rejections [of "bare_request\<lparr>body_email := ''nobody@shop.test''\<rparr>" "shop []" env_cloud]
      login_rejections [of "bare_request\<lparr>body_password := Some ''$2a$secret''\<rparr>" "shop []" env_cloud]
      login_rejections [of "bare_request\<lparr>body_password := Some ''secret''\<rparr>" "shop []" env_cloud]
      f n c1 c2
    by (simp add: bare_request_def)
qed

section \<open>Creating a product\<close>

text \<open>
  C4, as stated, fails for the same reason as C1: the upload comes before the handler. A
  creation request of an admin with no name and a failed upload is answered 500, not 400.
\<close>

theorem create_upload_error_counterexample:
  "verifyToken env_cloud (authorization (admin_request\<lparr>upload := UploadError\<rparr>))
     = Inr \<lparr>sub_id = 1, isAdmin = True\<rparr>
   \<and> body_name (admin_request\<lparr>upload := UploadError\<rparr>) = None
   \<and> status (snd (serve env_cloud (shop []) AddProduct (admin_request\<lparr>upload := UploadError\<rparr>)))
       = 500"
  by (simp add: admin_request_def bare_request_def verify_admin serve_def uploadMiddleware_def
      reply_def)

text \<open>
  C4, amended: for a creation request of an authenticated admin whose upload did not fail, a
  missing or empty name or category is answered 400 and the world is unchanged; with both
  non-empty one record is appended, with a fresh id from the store, \<open>featured\<close> false and
  the fields of the request, and the 201 response carries that record. A failed upload is
  answered 500 and nothing is stored.
\<close>

theorem create_validation:
  assumes "verifyToken e (authorization req) = Inr usr" and "isAdmin usr"
  shows "(upload req = UploadError \<longrightarrow>
            serve e w AddProduct req = (w, reply 500 DefaultErrorPage))
       \<and> (upload req \<noteq> UploadError \<and>
            (body_name req = None \<or> body_name req = Some [] \<or>
             body_category req = None \<or> body_category req = Some []) \<longrightarrow>
            serve e w AddProduct req = (w, reply 400 (Message MissingRequiredFields)))
       \<and> (\<forall>n c. upload req \<noteq> UploadError \<and> body_name req = Some n \<and> n \<noteq> [] \<and>
                 body_category req = Some c \<and> c \<noteq> [] \<longrightarrow>
            (\<exists>p. serve e w AddProduct req =
                   (w\<lparr>products := products w @ [p], next_id := Suc (next_id w),
                      trace := trace w @ [DbInsert (pid p)]\<rparr>,
                    reply 201 (ProductAdded p))
                 \<and> pid p = next_id w \<and> featured p = Some False
                 \<and> name p = Some n \<and> category p = Some c
                 \<and> subCategory p = body_subCategory req
                 \<and> description p = body_description req))"
proof (intro conjI allI impI)
  show "serve e w AddProduct req = (w, reply 500 DefaultErrorPage)"
    if "upload req = UploadError"
    using assms that by (simp add: serve_def uploadMiddleware_def)
  show "serve e w AddProduct req = (w, reply 400 (Message MissingRequiredFields))"
    if "upload req \<noteq> UploadError \<and>
        (body_name req = None \<or> body_name req = Some [] \<or>
         body_category req = None \<or> body_category req = Some [])"
    using assms that
    by (cases "upload req")
       (auto simp add: serve_def uploadMiddleware_def post_products_def truthy_def)
  fix n c
  assume h: "upload req \<noteq> UploadError \<and> body_name req = Some n \<and> n \<noteq> [] \<and>
             body_category req = Some c \<and> c \<noteq> []"
  define p where
    "p = \<lparr>pid = next_id w, name = Some n, category = Some c,
          subCategory = body_subCategory req, description = body_description req,
          imageUrl = (case upload req of Stored f \<Rightarrow> Some (file_imageUrl e f) | _ \<Rightarrow> None),
          cloudinaryId =
            (case upload req of
               Stored f \<Rightarrow> if isCloudinaryConfigured e then Some (filename f) else None
             | _ \<Rightarrow> None),
          featured = Some False\<rparr>"
  have "serve e w AddProduct req = (save w p, reply 201 (ProductAdded p))"
    using assms h
    by (cases "upload req")
       (simp_all add: serve_def uploadMiddleware_def post_products_def truthy_def p_def Let_def)
  then show "\<exists>p. serve e w AddProduct req =
                   (w\<lparr>products := products w @ [p], next_id := Suc (next_id w),
                      trace := trace w @ [DbInsert (pid p)]\<rparr>,
                    reply 201 (ProductAdded p))
                 \<and> pid p = next_id w \<and> featured p = Some False
                 \<and> name p = Some n \<and> category p = Some c
                 \<and> subCategory p = body_subCategory req
                 \<and> description p = body_description req"
    by (intro exI [of _ p]) (simp add: save_def p_def)
qed

theorem create_validation_witness:
  "serve env_cloud (shop []) AddProduct (admin_request\<lparr>body_name := Some ''lamp''\<rparr>)
     = (shop [], reply 400 (Message MissingRequiredFields))
   \<and> (\<exists>p. serve env_cloud (shop []) AddProduct
             (admin_request\<lparr>body_name := Some ''lamp'', body_category := Some ''light''\<rparr>)
           = ((shop [])\<lparr>products := products (shop []) @ [p], next_id := Suc (next_id (shop [])),
                trace := trace (shop []) @ [DbInsert (pid p)]\<rparr>,
              reply 201 (ProductAdded p))
         \<and> pid p = next_id (shop []) \<and> featured p = Some False
         \<and> name p = Some ''lamp'' \<and> category p = Some ''light'')"
proof -
  let ?r1 = "admin_request\<lparr>body_name := Some ''lamp''\<rparr>"
  let ?r2 = "admin_request\<lparr>body_name := Some ''lamp'', body_category := Some ''light''\<rparr>"
  have a: "isAdmin \<lparr>sub_id = 1, isAdmin = True\<rparr>"
    by simp
  have v1: "verifyToken env_cloud (authorization ?r1) = Inr \<lparr>sub_id = 1, isAdmin = True\<rparr>"
    and v2: "verifyToken env_cloud (authorization ?r2) = Inr \<lparr>sub_id = 1, isAdmin = True\<rparr>"
    by (simp_all add: admin_request_def verify_admin)
  have h1: "upload ?r1 \<noteq> UploadError \<and>
      (body_name ?r1 = None \<or> body_name ?r1 = Some [] \<or>
       body_category ?r1 = None \<or> body_category ?r1 = Some [])"
    by (simp add: admin_request_def bare_request_def)
  have h2: "upload ?r2 \<noteq> UploadError \<and> body_name ?r2 = Some ''lamp'' \<and> ''lamp'' \<noteq> [] \<and>
      body_category ?r2 = Some ''light'' \<and> ''light'' \<noteq> []"
    by (simp add: admin_request_def bare_request_def)
  note t1 = create_validation [OF v1 a, of "shop []", THEN conjunct2, THEN conjunct1, THEN mp, OF h1]
  note t2 = create_validation [OF v2 a, of "shop []", THEN conjunct2, THEN conjunct2,
      THEN spec, THEN spec, THEN mp, OF h2]
  from t1 t2 show ?thesis by blast
qed

section \<open>Deleting a product\<close>

text \<open>
  C5: deleting an existing product answers the confirmation and removes the record. When the
  cloud backend is configured and the product has a deletion key, the trace grows by exactly
  one deletion call with that key, then the logged error if the call failed, then the removal
  of the record: the call comes first and its failure changes nothing else. With no key (or no
  cloud backend) the trace grows by the removal alone.
\<close>

theorem delete_releases_image:
  assumes "verifyToken e (authorization req) = Inr usr" and "isAdmin usr"
    and "castObjectId e (params_id req) = Some i" and "findById (products w) i = Some p"
  shows "\<exists>w'. serve e w DeleteProduct req = (w', reply 200 (Message ProductDeleted))
          \<and> users w' = users w
          \<and> Suc (length (products w')) = length (products w)
          \<and> (\<forall>j. j \<noteq> i \<longrightarrow> findById (products w') j = findById (products w) j)
          \<and> (distinct (map pid (products w)) \<longrightarrow> findById (products w') i = None)
          \<and> (\<forall>key. isCloudinaryConfigured e \<and> cloudinaryId p = Some key \<and> key \<noteq> [] \<longrightarrow>
                trace w' = trace w @ [CloudDestroy key]
                             @ (if destroy_ok e key then [] else [ErrorLogged]) @ [DbRemove i])
          \<and> (cloudinaryId p = None \<or> \<not> isCloudinaryConfigured e \<longrightarrow>
                trace w' = trace w @ [DbRemove i])"
proof -
  define w1 where
    "w1 = (case cloudinaryId p of
             None \<Rightarrow> w
           | Some key \<Rightarrow> if isCloudinaryConfigured e \<and> truthy (Some key) then destroy e w key else w)"
  have p1: "products w1 = products w" and u1: "users w1 = users w"
    by (simp_all add: w1_def destroy_def split: option.splits)
  have s: "serve e w DeleteProduct req = (findByIdAndDelete w1 i, reply 200 (Message ProductDeleted))"
    using assms by (simp add: serve_def delete_products_def w1_def)
  have d: "findByIdAndDelete w1 i =
             w1\<lparr>products := remove_doc i (products w), trace := trace w1 @ [DbRemove i]\<rparr>"
    using assms(4) by (simp add: findByIdAndDelete_def p1)
  have t1: "trace w1 = trace w @ [CloudDestroy key] @ (if destroy_ok e key then [] else [ErrorLogged])"
    if "isCloudinaryConfigured e \<and> cloudinaryId p = Some key \<and> key \<noteq> []" for key
    using that by (simp add: w1_def destroy_def truthy_def)
  have t2: "trace w1 = trace w" if "cloudinaryId p = None \<or> \<not> isCloudinaryConfigured e"
    using that by (auto simp add: w1_def split: option.splits)
  show ?thesis
    unfolding s d
    using assms(4) t1 t2
    by (simp add: u1 length_remove_doc findById_remove_doc_other findById_remove_doc_same)
qed

theorem delete_releases_image_witness:
  "\<exists>w'. serve env_cloud (shop [chair 1, chair 2]) DeleteProduct admin_request
           = (w', reply 200 (Message ProductDeleted))
        \<and> findById (products w') 1 = None
        \<and> findById (products w') 2 = Some (chair 2)
        \<and> trace w' = [CloudDestroy ''dream-house-products/x'', ErrorLogged, DbRemove 1]"
proof -
  have v: "verifyToken env_cloud (authorization admin_request) = Inr \<lparr>sub_id = 1, isAdmin = True\<rparr>"
    by (simp add: admin_request_def verify_admin)
  have a: "isAdmin \<lparr>sub_id = 1, isAdmin = True\<rparr>"
    by simp
  have c: "castObjectId env_cloud (params_id admin_request) = Some 1"
    by (simp add: env_cloud_def admin_request_def bare_request_def)
  have f: "findById (products (shop [chair 1, chair 2])) 1 = Some (chair 1)"
    by (simp add: findById_def shop_def chair_def)
  have f2: "findById (products (shop [chair 1, chair 2])) 2 = Some (chair 2)"
    by (simp add: findById_def shop_def chair_def)
  have d: "distinct (map pid (products (shop [chair 1, chair 2])))"
    by (simp add: shop_def chair_def)
  have k: "isCloudinaryConfigured env_cloud \<and> cloudinaryId (chair 1) = Some ''dream-house-products/x''
           \<and> ''dream-house-products/x'' \<noteq> []"
    by (simp add: env_cloud_def chair_def)
  have n: "\<not> destroy_ok env_cloud ''dream-house-products/x''"
    by (simp add: env_cloud_def)
  have t: "trace (shop [chair 1, chair 2]) = []"
    by (simp add: shop_def)
  from delete_releases_image [OF v a c f] obtain w' where
    w': "serve env_cloud (shop [chair 1, chair 2]) DeleteProduct admin_request
           = (w', reply 200 (Message ProductDeleted))"
      "\<forall>j. j \<noteq> 1 \<longrightarrow> findById (products w') j = findById (products (shop [chair 1, chair 2])) j"
      "distinct (map pid (products (shop [chair 1, chair 2]))) \<longrightarrow> findById (products w') 1 = None"
      "\<forall>key. isCloudinaryConfigured env_cloud \<and> cloudinaryId (chair 1) = Some key \<and> key \<noteq> [] \<longrightarrow>
                trace w' = trace (shop [chair 1, chair 2]) @ [CloudDestroy key]
                             @ (if destroy_ok env_cloud key then [] else [ErrorLogged]) @ [DbRemove 1]"
    by blast
  from w'(2) f2 have "findById (products w') 2 = Some (chair 2)" by simp
  moreover from w'(3) d have "findById (products w') 1 = None" by simp
  moreover from w'(4) k n t
  have "trace w' = [CloudDestroy ''dream-house-products/x'', ErrorLogged, DbRemove 1]"
    by simp
  ultimately show ?thesis using w'(1) by blast
qed

section \<open>Toggling the featured flag\<close>

lemma toggle_products:
  "products (fst (serve e w ToggleFeatured req)) = products w
   \<or> (\<exists>i. castObjectId e (params_id req) = Some i
          \<and> products (fst (serve e w ToggleFeatured req))
              = update_doc i (\<lambda>p. p\<lparr>featured := set_field e (body_featured req) (featured p)\<rparr>)
                  (products w))"
  by (auto simp add: serve_def patch_products_def findByIdAndUpdate_def
      split: sum.splits option.splits)

lemma toggle_users: "users (fst (serve e w ToggleFeatured req)) = users w"
  by (auto simp add: serve_def patch_products_def findByIdAndUpdate_def
      split: sum.splits option.splits)

lemma toggle_admin:
  assumes "verifyToken e (authorization req) = Inr usr" and "isAdmin usr"
    and "castObjectId e (params_id req) = Some i" and "findById (products w) i = Some p"
  shows "products (fst (serve e w ToggleFeatured (req\<lparr>body_featured := Some x\<rparr>)))
           = update_doc i (\<lambda>q. q\<lparr>featured := Some x\<rparr>) (products w)"
    and "snd (serve e w ToggleFeatured (req\<lparr>body_featured := Some x\<rparr>))
           = reply 200 (Doc (Some (p\<lparr>featured := Some x\<rparr>)))"
  using assms
  by (simp_all add: serve_def patch_products_def findByIdAndUpdate_def set_field_def)

text \<open>
  C6: whatever the request, after \<^verbatim>\<open>PATCH /api/products/:id\<close> the users are the same, the
  collection has the same length, every product has its id, name, category, subCategory,
  description, imageUrl and deletion key as before, and every product other than the target
  is unchanged altogether. And when an admin toggles an existing product twice, each request
  carrying the negation of the flag's value at that moment, the flag is negated after the
  first and the collection is as it was after the second.
\<close>

theorem toggle_changes_featured_only:
  "users (fst (serve e w ToggleFeatured req)) = users w
   \<and> length (products (fst (serve e w ToggleFeatured req))) = length (products w)
   \<and> (\<forall>k<length (products w).
        (let p = products w ! k; p' = products (fst (serve e w ToggleFeatured req)) ! k
         in pid p' = pid p \<and> name p' = name p \<and> category p' = category p
            \<and> subCategory p' = subCategory p \<and> description p' = description p
            \<and> imageUrl p' = imageUrl p \<and> cloudinaryId p' = cloudinaryId p
            \<and> (castObjectId e (params_id req) \<noteq> Some (pid p) \<longrightarrow> p' = p)))
   \<and> (\<forall>usr i p b.
        verifyToken e (authorization req) = Inr usr \<and> isAdmin usr \<and>
        castObjectId e (params_id req) = Some i \<and>
        findById (products w) i = Some p \<and> featured p = Some b \<longrightarrow>
        (let w1 = fst (serve e w ToggleFeatured (req\<lparr>body_featured := Some (\<not> b)\<rparr>));
             w2 = fst (serve e w1 ToggleFeatured (req\<lparr>body_featured := Some (\<not> \<not> b)\<rparr>))
         in findById (products w1) i = Some (p\<lparr>featured := Some (\<not> b)\<rparr>)
            \<and> findById (products w2) i = Some p
            \<and> products w2 = products w))"
proof (intro conjI allI impI)
  let ?w' = "fst (serve e w ToggleFeatured req)"
  show "users ?w' = users w"
    by (rule toggle_users)
  show "length (products ?w') = length (products w)"
    using toggle_products [of e w req] by (auto simp add: length_update_doc)
  show "let p = products w ! k; p' = products ?w' ! k
        in pid p' = pid p \<and> name p' = name p \<and> category p' = category p
           \<and> subCategory p' = subCategory p \<and> description p' = description p
           \<and> imageUrl p' = imageUrl p \<and> cloudinaryId p' = cloudinaryId p
           \<and> (castObjectId e (params_id req) \<noteq> Some (pid p) \<longrightarrow> p' = p)"
    if "k < length (products w)" for k
  proof -
    from toggle_products [of e w req] show ?thesis
    proof
      assume "products ?w' = products w"
      then show ?thesis by (simp add: Let_def)
    next
      assume "\<exists>i. castObjectId e (params_id req) = Some i
          \<and> products ?w'
              = update_doc i (\<lambda>p. p\<lparr>featured := set_field e (body_featured req) (featured p)\<rparr>)
                  (products w)"
      then obtain i where i: "castObjectId e (params_id req) = Some i"
        and u: "products ?w'
              = update_doc i (\<lambda>p. p\<lparr>featured := set_field e (body_featured req) (featured p)\<rparr>)
                  (products w)"
        by blast
      from update_doc_nth [OF that, of i
          "\<lambda>p. p\<lparr>featured := set_field e (body_featured req) (featured p)\<rparr>"]
      show ?thesis
        unfolding u Let_def using i by auto
    qed
  qed
next
  fix usr i p b
  assume h: "verifyToken e (authorization req) = Inr usr \<and> isAdmin usr \<and>
        castObjectId e (params_id req) = Some i \<and>
        findById (products w) i = Some p \<and> featured p = Some b"
  define w1 where "w1 = fst (serve e w ToggleFeatured (req\<lparr>body_featured := Some (\<not> b)\<rparr>))"
  define w2 where "w2 = fst (serve e w1 ToggleFeatured (req\<lparr>body_featured := Some (\<not> \<not> b)\<rparr>))"
  have p1: "products w1 = update_doc i (\<lambda>q. q\<lparr>featured := Some (\<not> b)\<rparr>) (products w)"
    unfolding w1_def using h by (intro toggle_admin(1)) auto
  have f1: "findById (products w1) i = Some (p\<lparr>featured := Some (\<not> b)\<rparr>)"
    using h by (simp add: p1 findById_update_doc)
  have p2: "products w2 = update_doc i (\<lambda>q. q\<lparr>featured := Some (\<not> \<not> b)\<rparr>) (products w1)"
    unfolding w2_def using h f1 by (intro toggle_admin(1)) auto
  have "products w2 = update_doc i (\<lambda>q. q\<lparr>featured := Some b\<rparr>) (products w)"
    by (simp add: p2 p1 update_doc_twice)
  also have "\<dots> = products w"
    using h by (intro update_doc_fixed [of _ _ p]) auto
  finally have p3: "products w2 = products w" .
  show "let w1 = fst (serve e w ToggleFeatured (req\<lparr>body_featured := Some (\<not> b)\<rparr>));
            w2 = fst (serve e w1 ToggleFeatured (req\<lparr>body_featured := Some (\<not> \<not> b)\<rparr>))
        in findById (products w1) i = Some (p\<lparr>featured := Some (\<not> b)\<rparr>)
           \<and> findById (products w2) i = Some p
           \<and> products w2 = products w"
    using f1 p3 h unfolding Let_def w1_def [symmetric] w2_def [symmetric] by simp
qed

theorem toggle_changes_featured_only_witness:
  "findById (products (shop [chair 1, chair 2])) 2 = Some (chair 2)
   \<and> featured (chair 2) = Some False
   \<and> (let w1 = fst (serve env_cloud (shop [chair 1, chair 2]) ToggleFeatured
                   (admin_request\<lparr>params_id := ''2'', body_featured := Some True\<rparr>));
        w2 = fst (serve env_cloud w1 ToggleFeatured
                   (admin_request\<lparr>params_id := ''2'', body_featured := Some False\<rparr>))
    in findById (products w1) 2 = Some ((chair 2)\<lparr>featured := Some True\<rparr>)
       \<and> findById (products w2) 2 = Some (chair 2)
       \<and> products w2 = products (shop [chair 1, chair 2]))"
proof -
  let ?r = "admin_request\<lparr>params_id := ''2''\<rparr>"
  let ?w = "shop [chair 1, chair 2]"
  have f: "findById (products ?w) 2 = Some (chair 2)"
    by (simp add: findById_def shop_def chair_def)
  have b: "featured (chair 2) = Some False"
    by (simp add: chair_def)
  have h: "verifyToken env_cloud (authorization ?r) = Inr \<lparr>sub_id = 1, isAdmin = True\<rparr>
           \<and> isAdmin \<lparr>sub_id = 1, isAdmin = True\<rparr>
           \<and> castObjectId env_cloud (params_id ?r) = Some 2
           \<and> findById (products ?w) 2 = Some (chair 2)
           \<and> featured (chair 2) = Some False"
  proof (intro conjI)
    show "verifyToken env_cloud (authorization ?r) = Inr \<lparr>sub_id = 1, isAdmin = True\<rparr>"
      by (simp add: admin_request_def verify_admin)
    show "isAdmin \<lparr>sub_id = 1, isAdmin = True\<rparr>"
      by simp
    show "castObjectId env_cloud (params_id ?r) = Some 2"
      by (simp add: env_cloud_def)
  qed (rule f b)+
  note t = toggle_changes_featured_only [of env_cloud ?w ?r, THEN conjunct2, THEN conjunct2,
      THEN conjunct2, THEN spec, THEN spec, THEN spec, THEN spec, THEN mp, OF h]
  from t f b show ?thesis
    by (simp add: Let_def)
qed

text \<open>
  C10: for an admin and a well-formed id that matches no product, the toggle answers 200 with
  a \<^verbatim>\<open>null\<close> body and changes nothing, where delete and update (its upload not failed)
  answer 404.
\<close>

theorem toggle_unknown_product:
  assumes "verifyToken e (authorization req) = Inr usr" and "isAdmin usr"
    and "castObjectId e (params_id req) = Some i" and "findById (products w) i = None"
  shows "serve e w ToggleFeatured req = (w, reply 200 (Doc None))
       \<and> serve e w DeleteProduct req = (w, reply 404 (Message ProductNotFound))
       \<and> (upload req \<noteq> UploadError \<longrightarrow>
            serve e w UpdateProduct req = (w, reply 404 (Message ProductNotFound)))"
  using assms
  by (cases "upload req")
     (simp_all add: serve_def uploadMiddleware_def patch_products_def delete_products_def
        put_products_def findByIdAndUpdate_def)

theorem toggle_unknown_product_witness:
  "castObjectId env_cloud (params_id (admin_request\<lparr>params_id := ''9''\<rparr>)) = Some 9
   \<and> findById (products (shop [chair 1])) 9 = None
   \<and> serve env_cloud (shop [chair 1]) ToggleFeatured (admin_request\<lparr>params_id := ''9''\<rparr>)
       = (shop [chair 1], reply 200 (Doc None))
   \<and> serve env_cloud (shop [chair 1]) DeleteProduct (admin_request\<lparr>params_id := ''9''\<rparr>)
       = (shop [chair 1], reply 404 (Message ProductNotFound))"
proof -
  let ?r = "admin_request\<lparr>params_id := ''9''\<rparr>"
  have v: "verifyToken env_cloud (authorization ?r) = Inr \<lparr>sub_id = 1, isAdmin = True\<rparr>"
    by (simp add: admin_request_def verify_admin)
  have a: "isAdmin \<lparr>sub_id = 1, isAdmin = True\<rparr>"
    by simp
  have c: "castObjectId env_cloud (params_id ?r) = Some 9"
    by (simp add: env_cloud_def)
  have f: "findById (products (shop [chair 1])) 9 = None"
    by (simp add: findById_def shop_def chair_def)
  show ?thesis
    using toggle_unknown_product [OF v a c f] c f by simp
qed

section \<open>Listing products\<close>

text \<open>
  C7: with the limit written as the decimal numeral of a positive \<open>N\<close>, the list is the first
  \<open>N\<close> products of the collection, \<open>min N total\<close> of them; with no limit, with \<^verbatim>\<open>0\<close> or
  with a negative numeral it is the whole collection.
\<close>

theorem list_limit:
  "(\<forall>N. 0 < N \<and> query_limit req = Some (decimal N) \<longrightarrow>
      serve e w ListProducts req = (w, reply 200 (Docs (take N (products w))))
      \<and> length (take N (products w)) = min N (length (products w)))
   \<and> (query_limit req = None \<longrightarrow>
        serve e w ListProducts req = (w, reply 200 (Docs (products w))))
   \<and> (\<forall>N. query_limit req = Some (decimal 0) \<or> query_limit req = Some (CHR ''-'' # decimal N) \<longrightarrow>
        serve e w ListProducts req = (w, reply 200 (Docs (products w))))"
  by (auto simp add: serve_def get_products_def Let_def parseInt_decimal parseInt_minus_decimal
      decimal_nonempty min_def)

theorem list_limit_witness:
  "decimal 2 = ''2''
   \<and> serve env_cloud (shop [chair 1, chair 2, chair 3, chair 4, chair 5]) ListProducts
       (bare_request\<lparr>query_limit := Some ''2''\<rparr>)
     = (shop [chair 1, chair 2, chair 3, chair 4, chair 5], reply 200 (Docs [chair 1, chair 2]))
   \<and> serve env_cloud (shop [chair 1, chair 2, chair 3, chair 4, chair 5]) ListProducts bare_request
     = (shop [chair 1, chair 2, chair 3, chair 4, chair 5],
        reply 200 (Docs [chair 1, chair 2, chair 3, chair 4, chair 5]))"
proof -
  let ?w = "shop [chair 1, chair 2, chair 3, chair 4, chair 5]"
  have d: "decimal 2 = ''2''"
    by code_simp
  have q: "(0::nat) < 2 \<and> query_limit (bare_request\<lparr>query_limit := Some ''2''\<rparr>) = Some (decimal 2)"
    by (simp add: d)
  have n: "query_limit bare_request = None"
    by (simp add: bare_request_def)
  have p: "take 2 (products ?w) = [chair 1, chair 2]"
    by (simp add: shop_def)
  have a: "products ?w = [chair 1, chair 2, chair 3, chair 4, chair 5]"
    by (simp add: shop_def)
  note t1 = list_limit [of "bare_request\<lparr>query_limit := Some ''2''\<rparr>" env_cloud ?w,
      THEN conjunct1, THEN spec, THEN mp, OF q, THEN conjunct1]
  note t2 = list_limit [of bare_request env_cloud ?w, THEN conjunct2, THEN conjunct1, THEN mp, OF n]
  show ?thesis
    using t1 t2 d by (simp add: shop_def)
qed

section \<open>The image fields of reachable products\<close>

text \<open>
  Where the image fields of a product come from after a request: from a product that was
  there before, from a creation without a file, or from a stored file.
\<close>

lemma post_products_image:
  assumes "q \<in> set (products (fst (post_products e w usr fl req)))"
  shows "(\<exists>p\<in>set (products w). imageUrl q = imageUrl p \<and> cloudinaryId q = cloudinaryId p)
       \<or> (imageUrl q = None \<and> cloudinaryId q = None)
       \<or> (isCloudinaryConfigured e \<and> imageUrl q \<noteq> None \<and> cloudinaryId q \<noteq> None)
       \<or> (\<not> isCloudinaryConfigured e \<and> imageUrl q \<noteq> None
            \<and> (cloudinaryId q = None \<or> (\<exists>p\<in>set (products w). cloudinaryId q = cloudinaryId p)))"
  using assms
  by (cases fl) (auto simp add: post_products_def save_def Let_def split: if_splits)

lemma patch_products_image:
  assumes "q \<in> set (products (fst (patch_products e w usr req)))"
  shows "\<exists>p\<in>set (products w). imageUrl q = imageUrl p \<and> cloudinaryId q = cloudinaryId p"
proof (cases "q \<in> set (products w)")
  case True
  then show ?thesis by blast
next
  case False
  with assms obtain i p where "findById (products w) i = Some p"
    and "q = p\<lparr>featured := set_field e (body_featured req) (featured p)\<rparr>"
    by (auto simp add: patch_products_def findByIdAndUpdate_def
        split: if_splits option.splits dest!: set_update_doc)
  with findById_Some [of "products w" i p] show ?thesis
    by auto
qed

lemma delete_products_image:
  assumes "q \<in> set (products (fst (delete_products e w usr req)))"
  shows "q \<in> set (products w)"
  using assms
  by (auto simp add: delete_products_def findByIdAndDelete_def products_destroy Let_def
      split: if_splits option.splits dest!: set_remove_doc)

lemma put_products_image:
  assumes "q \<in> set (products (fst (put_products e w usr fl req)))"
  shows "(\<exists>p\<in>set (products w). imageUrl q = imageUrl p \<and> cloudinaryId q = cloudinaryId p)
       \<or> (isCloudinaryConfigured e \<and> imageUrl q \<noteq> None \<and> cloudinaryId q \<noteq> None)
       \<or> (\<not> isCloudinaryConfigured e \<and> imageUrl q \<noteq> None
            \<and> (\<exists>p\<in>set (products w). cloudinaryId q = cloudinaryId p))"
proof (cases "q \<in> set (products w)")
  case True
  then show ?thesis by blast
next
  case False
  with assms obtain i product where f: "findById (products w) i = Some product"
    and iu: "imageUrl q =
          (case fl of None \<Rightarrow> imageUrl product | Some f \<Rightarrow> Some (file_imageUrl e f))"
    and ci: "cloudinaryId q =
          (case fl of
             None \<Rightarrow> cloudinaryId product
           | Some f \<Rightarrow> if isCloudinaryConfigured e then Some (filename f) else cloudinaryId product)"
    by (auto simp add: put_products_def findByIdAndUpdate_def products_destroy Let_def
        split: if_splits option.splits prod.splits dest!: set_update_doc)
  from f have "product \<in> set (products w)"
    using findById_Some [of "products w" i product] by blast
  with iu ci show ?thesis
    by (cases fl) auto
qed

lemma app_image:
  assumes "q \<in> set (products (fst (app e w r req)))"
  shows "(\<exists>p\<in>set (products w). imageUrl q = imageUrl p \<and> cloudinaryId q = cloudinaryId p)
       \<or> (imageUrl q = None \<and> cloudinaryId q = None)
       \<or> (isCloudinaryConfigured e \<and> imageUrl q \<noteq> None \<and> cloudinaryId q \<noteq> None)
       \<or> (\<not> isCloudinaryConfigured e \<and> imageUrl q \<noteq> None
            \<and> (cloudinaryId q = None \<or> (\<exists>p\<in>set (products w). cloudinaryId q = cloudinaryId p)))"
proof (cases "q \<in> set (products w)")
  case True
  then show ?thesis by blast
next
  case False
  with assms have s: "q \<in> set (products (fst (serve e w r req)))"
    by (cases "json_body req") (auto simp add: app_def express_json_def)
  show ?thesis
  proof (cases r)
    case Login
    with s False show ?thesis
      by (auto simp add: serve_def post_login_def split: option.splits if_splits)
  next
    case ListProducts
    with s False show ?thesis
      by (simp add: serve_def get_products_def Let_def)
  next
    case AddProduct
    with s False post_products_image [of q e w _ _ req] show ?thesis
      by (auto simp add: serve_def split: sum.splits)
  next
    case UpdateProduct
    with s False put_products_image [of q e w _ _ req] show ?thesis
      by (auto simp add: serve_def split: sum.splits)
  next
    case DeleteProduct
    with s False delete_products_image [of q e w _ req] show ?thesis
      by (auto simp add: serve_def split: sum.splits)
  next
    case ToggleFeatured
    with s False patch_products_image [of q e w _ req] show ?thesis
      by (auto simp add: serve_def split: sum.splits)
  qed
qed

lemma app_ok:
  assumes "\<forall>p\<in>set (products w). image_fields_ok e p"
  shows "\<forall>p\<in>set (products (fst (app e w r req))). image_fields_ok e p"
proof
  fix q
  assume "q \<in> set (products (fst (app e w r req)))"
  from app_image [OF this] assms show "image_fields_ok e q"
    by (auto simp add: image_fields_ok_def image_key_paired_def)
qed

lemma app_key_has_url:
  assumes "\<forall>p\<in>set (products w). key_has_url p"
  shows "\<forall>p\<in>set (products (fst (app e w r req))). key_has_url p"
proof
  fix q
  assume "q \<in> set (products (fst (app e w r req)))"
  from app_image [OF this] assms show "key_has_url q"
    by (auto simp add: key_has_url_def)
qed

lemma reachable_ok: "reachable e w \<Longrightarrow> \<forall>p\<in>set (products w). image_fields_ok e p"
proof (induction rule: reachable.induct)
  case (start w)
  then show ?case by simp
next
  case (step w r req)
  then show ?case by (intro app_ok)
qed

lemma reachable_any_key: "reachable_any w \<Longrightarrow> \<forall>p\<in>set (products w). key_has_url p"
proof (induction rule: reachable_any.induct)
  case (start_any w)
  then show ?case by simp
next
  case (step_any w e r req)
  then show ?case by (intro app_key_has_url)
qed

lemma ids_fresh_update:
  assumes "ids_fresh w" and "\<And>p. pid (f p) = pid p"
  shows "ids_fresh (fst (findByIdAndUpdate w i f))"
proof (cases "findById (products w) i")
  case None
  with assms(1) show ?thesis by (simp add: findByIdAndUpdate_def)
next
  case (Some p)
  have m: "map pid (update_doc i f (products w)) = map pid (products w)"
    using assms(2) by (rule map_pid_update_doc)
  have "pid q < next_id w" if "q \<in> set (update_doc i f (products w))" for q
  proof -
    from that have "pid q \<in> set (map pid (update_doc i f (products w)))" by simp
    then have "pid q \<in> pid ` set (products w)" unfolding m by simp
    with assms(1) show ?thesis by (auto simp add: ids_fresh_def)
  qed
  with assms(1) Some m show ?thesis
    by (simp add: ids_fresh_def findByIdAndUpdate_def)
qed

lemma ids_fresh_destroy: "ids_fresh (destroy e w key) = ids_fresh w"
  by (simp add: ids_fresh_def destroy_def)

lemma ids_fresh_serve:
  assumes "ids_fresh w"
  shows "ids_fresh (fst (serve e w r req))"
proof (cases r)
  case Login
  with assms show ?thesis
    by (auto simp add: serve_def post_login_def split: option.splits)
next
  case ListProducts
  with assms show ?thesis
    by (simp add: serve_def get_products_def Let_def)
next
  case AddProduct
  with assms show ?thesis
    by (fastforce simp add: serve_def post_products_def save_def Let_def ids_fresh_def
        split: sum.splits)
next
  case UpdateProduct
  have "ids_fresh (fst (put_products e w usr fl req))" for usr fl
  proof (cases "isAdmin usr")
    case False
    with assms show ?thesis by (simp add: put_products_def)
  next
    case True
    show ?thesis
    proof (cases "castObjectId e (params_id req)")
      case None
      with True assms show ?thesis by (simp add: put_products_def)
    next
      case (Some i)
      show ?thesis
      proof (cases "findById (products w) i")
        case None
        with True Some assms show ?thesis by (simp add: put_products_def)
      next
        case (Some product)
        obtain w1 f where
          "fst (put_products e w usr fl req) = fst (findByIdAndUpdate w1 i f)"
          and "ids_fresh w1" and "\<And>p. pid (f p) = pid p"
        proof
          show "fst (put_products e w usr fl req) = fst (findByIdAndUpdate
             (case fl of
                None \<Rightarrow> w
              | Some f \<Rightarrow>
                  (case cloudinaryId product of
                     None \<Rightarrow> w
                   | Some key \<Rightarrow>
                       if isCloudinaryConfigured e \<and> truthy (Some key)
                       then destroy e w key else w)) i
             (\<lambda>p. p\<lparr>name := set_field e (body_name req) (name p),
                    category := set_field e (body_category req) (category p),
                    subCategory := set_field e (body_subCategory req) (subCategory p),
                    description := set_field e (body_description req) (description p),
                    imageUrl := (case fl of
                            None \<Rightarrow> imageUrl product
                          | Some f \<Rightarrow> Some (file_imageUrl e f)),
                    cloudinaryId := (case fl of
                            None \<Rightarrow> cloudinaryId product
                          | Some f \<Rightarrow>
                              if isCloudinaryConfigured e then Some (filename f)
                              else cloudinaryId product)\<rparr>))"
            using True \<open>castObjectId e (params_id req) = Some i\<close> Some
            by (simp add: put_products_def Let_def case_prod_beta)
          show "ids_fresh (case fl of
                None \<Rightarrow> w
              | Some f \<Rightarrow>
                  (case cloudinaryId product of
                     None \<Rightarrow> w
                   | Some key \<Rightarrow>
                       if isCloudinaryConfigured e \<and> truthy (Some key)
                       then destroy e w key else w))"
            using assms by (simp add: ids_fresh_destroy split: option.splits)
        qed simp
        then show ?thesis
          using ids_fresh_update by presburger
      qed
    qed
  qed
  with UpdateProduct assms show ?thesis
    by (auto simp add: serve_def split: sum.splits)
next
  case DeleteProduct
  with assms show ?thesis
    by (auto simp add: serve_def delete_products_def findByIdAndDelete_def ids_fresh_def
        destroy_def Let_def distinct_remove_doc
        split: sum.splits option.splits dest: set_remove_doc)
next
  case ToggleFeatured
  have "ids_fresh (fst (patch_products e w usr req))" for usr
  proof -
    let ?f = "\<lambda>p. p\<lparr>featured := set_field e (body_featured req) (featured p)\<rparr>"
    have "fst (patch_products e w usr req) = w
          \<or> (\<exists>i. fst (patch_products e w usr req) = fst (findByIdAndUpdate w i ?f))"
      by (auto simp add: patch_products_def case_prod_beta split: option.splits)
    with assms ids_fresh_update [OF assms, of ?f] show ?thesis
      by auto
  qed
  with ToggleFeatured assms show ?thesis
    by (auto simp add: serve_def split: sum.splits)
qed

lemma ids_fresh_app:
  assumes "ids_fresh w"
  shows "ids_fresh (fst (app e w r req))"
  using assms ids_fresh_serve [OF assms, of e r req]
  by (cases "json_body req") (simp_all add: app_def express_json_def)

lemma reachable_ids_fresh: "reachable e w \<Longrightarrow> ids_fresh w"
proof (induction rule: reachable.induct)
  case (start w)
  then show ?case by (simp add: ids_fresh_def)
next
  case (step w r req)
  then show ?case by (intro ids_fresh_app)
qed

lemma local_lamp_created:
  "products (fst (app env_local (shop []) AddProduct lamp_request)) = [local_lamp]"
proof -
  have j: "json_body lamp_request = BodyParsed"
    by (simp add: lamp_request_def admin_request_def parsed_bare)
  have v: "verifyToken env_local (authorization lamp_request) = Inr \<lparr>sub_id = 1, isAdmin = True\<rparr>"
    by (simp add: lamp_request_def admin_request_def verify_local verify_admin)
  have c: "\<not> isCloudinaryConfigured env_local"
    by (simp add: env_local_def)
  have u: "upload lamp_request = Stored photo"
    by (simp add: lamp_request_def)
  have b: "body_name lamp_request = Some ''lamp''" "body_category lamp_request = Some ''light''"
    "body_subCategory lamp_request = None" "body_description lamp_request = None"
    by (simp_all add: lamp_request_def admin_request_def bare_request_def)
  show ?thesis
    unfolding app_parsed [OF j]
    by (simp add: serve_def v u b c uploadMiddleware_def post_products_def truthy_def Let_def
        save_def file_imageUrl_def photo_def shop_def local_lamp_def)
qed

text \<open>
  C8, as stated, fails: with the local disk as backend, creating a product with a file stores
  an image url and no deletion key.
\<close>

theorem image_without_key_counterexample:
  "reachable env_local (fst (app env_local (shop []) AddProduct lamp_request))
   \<and> local_lamp \<in> set (products (fst (app env_local (shop []) AddProduct lamp_request)))
   \<and> imageUrl local_lamp = Some ''/uploads/1700000000000-123456789.png''
   \<and> cloudinaryId local_lamp = None
   \<and> \<not> image_key_paired local_lamp"
proof -
  have "reachable env_local (shop [])"
    by (rule reachable.start) (simp add: shop_def)
  then have "reachable env_local (fst (app env_local (shop []) AddProduct lamp_request))"
    by (rule reachable.step)
  then show ?thesis
    by (simp add: local_lamp_created) (simp add: local_lamp_def image_key_paired_def)
qed

text \<open>
  C8, amended: in every world reached from an empty collection, whatever the configuration
  at each request, no product has a deletion key without an image url; when the cloud
  backend is configured throughout, the url and the key of every product are both there or
  both missing; when the local disk is used throughout, no product has a deletion key.
\<close>

theorem image_key_invariant:
  "(reachable_any w \<and> p \<in> set (products w) \<longrightarrow>
      (cloudinaryId p \<noteq> None \<longrightarrow> imageUrl p \<noteq> None))
   \<and> (reachable e w \<and> p \<in> set (products w) \<longrightarrow>
        (isCloudinaryConfigured e \<longrightarrow> image_key_paired p)
        \<and> (\<not> isCloudinaryConfigured e \<longrightarrow> cloudinaryId p = None))"
  using reachable_any_key [of w] reachable_ok [of e w]
  by (auto simp add: image_fields_ok_def key_has_url_def)

theorem image_key_invariant_witness:
  "reachable_any (fst (app env_local (shop []) AddProduct lamp_request))
   \<and> reachable env_local (fst (app env_local (shop []) AddProduct lamp_request))
   \<and> local_lamp \<in> set (products (fst (app env_local (shop []) AddProduct lamp_request)))
   \<and> \<not> isCloudinaryConfigured env_local
   \<and> imageUrl local_lamp \<noteq> None
   \<and> cloudinaryId local_lamp = None"
proof -
  have e: "products (shop []) = []"
    by (simp add: shop_def)
  have ra: "reachable_any (fst (app env_local (shop []) AddProduct lamp_request))"
    by (rule reachable_any.step_any) (rule reachable_any.start_any [OF e])
  have r: "reachable env_local (fst (app env_local (shop []) AddProduct lamp_request))"
    by (rule reachable.step) (rule reachable.start [OF e])
  have m: "local_lamp \<in> set (products (fst (app env_local (shop []) AddProduct lamp_request)))"
    by (simp add: local_lamp_created)
  have c: "\<not> isCloudinaryConfigured env_local"
    by (simp add: env_local_def)
  have u: "imageUrl local_lamp \<noteq> None"
    by (simp add: local_lamp_def)
  from image_key_invariant
    [of "fst (app env_local (shop []) AddProduct lamp_request)" local_lamp env_local]
    ra r m c u
  show ?thesis by blast
qed

section \<open>The admin claim of an issued token\<close>

lemma split_no_separator: "c \<notin> set t \<Longrightarrow> split c t = [t]"
  by (induction t) auto

lemma bearer_scheme: "CHR '' '' \<notin> set t \<Longrightarrow> bearer (''Bearer '' @ t) = Some t"
  by (simp add: bearer_def split_no_separator)

text \<open>
  C9: a successful login signs the payload with the account's id and \<open>isAdmin\<close> true,
  whatever the flag of the stored account and whatever the request says. A request to an
  admin-only route that presents this token after \<^verbatim>\<open>Bearer\<close>, while the token verifies,
  passes the gateway with that payload and passes the role check of the handler: it is
  answered neither 401 nor 403, and the operation is carried out (a creation with name and
  category is answered 201 and adds a record, an update of an existing product is answered
  200 and written, a deletion of an existing product is confirmed and removes a record, a
  toggle of an existing product is answered with the updated record).
\<close>

theorem login_token_claims_admin:
  assumes "findOne (users w) (body_email req) = Some u" and "body_password req = Some pw"
    and "bcrypt_compare e pw (password u)"
  shows "post_login e w req =
           (w, reply 200 (TokenUser (jwt_sign e \<lparr>sub_id = uid u, isAdmin = True\<rparr>) u))
       \<and> (\<forall>r req' w'.
             admin_only r \<and> json_body req' = BodyParsed \<and>
             authorization req' = Some (''Bearer '' @ jwt_sign e \<lparr>sub_id = uid u, isAdmin = True\<rparr>) \<and>
             CHR '' '' \<notin> set (jwt_sign e \<lparr>sub_id = uid u, isAdmin = True\<rparr>) \<and>
             jwt_verify e (jwt_sign e \<lparr>sub_id = uid u, isAdmin = True\<rparr>)
               = Some \<lparr>sub_id = uid u, isAdmin = True\<rparr> \<longrightarrow>
             verifyToken e (authorization req') = Inr \<lparr>sub_id = uid u, isAdmin = True\<rparr>
             \<and> status (snd (app e w' r req')) \<noteq> 401
             \<and> status (snd (app e w' r req')) \<noteq> 403
             \<and> (r = AddProduct \<and> upload req' \<noteq> UploadError \<and>
                  truthy (body_name req') \<and> truthy (body_category req') \<longrightarrow>
                  status (snd (app e w' r req')) = 201
                  \<and> length (products (fst (app e w' r req'))) = Suc (length (products w')))
             \<and> (\<forall>i p. r = UpdateProduct \<and> upload req' \<noteq> UploadError \<and>
                  castObjectId e (params_id req') = Some i \<and>
                  findById (products w') i = Some p \<longrightarrow>
                  status (snd (app e w' r req')) = 200
                  \<and> last (trace (fst (app e w' r req'))) = DbUpdate i)
             \<and> (\<forall>i p. r = DeleteProduct \<and> castObjectId e (params_id req') = Some i \<and>
                  findById (products w') i = Some p \<longrightarrow>
                  snd (app e w' r req') = reply 200 (Message ProductDeleted)
                  \<and> Suc (length (products (fst (app e w' r req')))) = length (products w'))
             \<and> (\<forall>i p. r = ToggleFeatured \<and> castObjectId e (params_id req') = Some i \<and>
                  findById (products w') i = Some p \<longrightarrow>
                  snd (app e w' r req') =
                    reply 200 (Doc (Some (p\<lparr>featured :=
                      set_field e (body_featured req') (featured p)\<rparr>)))))"
proof (intro conjI allI impI)
  show "post_login e w req =
           (w, reply 200 (TokenUser (jwt_sign e \<lparr>sub_id = uid u, isAdmin = True\<rparr>) u))"
    using assms by (simp add: post_login_def)
next
  fix r and req' :: request and w' :: world
  let ?P = "\<lparr>sub_id = uid u, isAdmin = True\<rparr>"
  assume h: "admin_only r \<and> json_body req' = BodyParsed \<and>
             authorization req' = Some (''Bearer '' @ jwt_sign e ?P) \<and>
             CHR '' '' \<notin> set (jwt_sign e ?P) \<and>
             jwt_verify e (jwt_sign e ?P) = Some ?P"
  then have b: "bearer (''Bearer '' @ jwt_sign e ?P) = Some (jwt_sign e ?P)"
    by (intro bearer_scheme) simp
  show v: "verifyToken e (authorization req') = Inr ?P"
    using h b by (simp add: verifyToken_def truthy_def)
  have a: "\<And>r. app e w' r req' = serve e w' r req'"
    using h by (simp add: app_parsed)
  have add: "serve e w' AddProduct req' =
      (case uploadMiddleware (upload req') of
         Inl res \<Rightarrow> (w', res) | Inr fl \<Rightarrow> post_products e w' ?P fl req')"
    and upd: "serve e w' UpdateProduct req' =
      (case uploadMiddleware (upload req') of
         Inl res \<Rightarrow> (w', res) | Inr fl \<Rightarrow> put_products e w' ?P fl req')"
    and del: "serve e w' DeleteProduct req' = delete_products e w' ?P req'"
    and tog: "serve e w' ToggleFeatured req' = patch_products e w' ?P req'"
    by (simp_all add: serve_def v)
  have post_status: "status (snd (post_products e w' ?P fl req')) \<in> {400, 201}" for fl
    by (simp add: post_products_def reply_def Let_def)
  have put_status: "status (snd (put_products e w' ?P fl req')) \<in> {500, 404, 200}" for fl
    by (simp add: put_products_def reply_def Let_def case_prod_beta split: option.splits)
  have del_status: "status (snd (delete_products e w' ?P req')) \<in> {500, 404, 200}"
    by (simp add: delete_products_def reply_def Let_def split: option.splits)
  have tog_status: "status (snd (patch_products e w' ?P req')) \<in> {500, 200}"
    by (simp add: patch_products_def reply_def case_prod_beta split: option.splits)
  have up_status: "status (snd (w', res)) = 500" if "uploadMiddleware (upload req') = Inl res" for res
    using that by (cases "upload req'") (auto simp add: uploadMiddleware_def reply_def)
  have st: "status (snd (app e w' r req')) \<in> {500, 400, 404, 200, 201}"
  proof (cases r)
    case AddProduct
    then show ?thesis
      using post_status up_status unfolding a add
      by (cases "uploadMiddleware (upload req')") (auto simp add: add)
  next
    case UpdateProduct
    then show ?thesis
      using put_status up_status unfolding a upd
      by (cases "uploadMiddleware (upload req')") (auto simp add: upd)
  next
    case DeleteProduct
    then show ?thesis using del_status by (auto simp add: a del)
  next
    case ToggleFeatured
    then show ?thesis using tog_status by (auto simp add: a tog)
  qed (use h in \<open>simp_all add: admin_only_def\<close>)
  from st show "status (snd (app e w' r req')) \<noteq> 401" by auto
  from st show "status (snd (app e w' r req')) \<noteq> 403" by auto
  show "status (snd (app e w' r req')) = 201"
    if "r = AddProduct \<and> upload req' \<noteq> UploadError \<and>
        truthy (body_name req') \<and> truthy (body_category req')"
    using that unfolding a
    by (cases "upload req'")
       (simp_all add: add uploadMiddleware_def post_products_def reply_def Let_def)
  show "length (products (fst (app e w' r req'))) = Suc (length (products w'))"
    if "r = AddProduct \<and> upload req' \<noteq> UploadError \<and>
        truthy (body_name req') \<and> truthy (body_category req')"
    using that unfolding a
    by (cases "upload req'")
       (simp_all add: add uploadMiddleware_def post_products_def save_def Let_def)
next
  fix r and req' :: request and w' :: world and i and p :: product
  let ?P = "\<lparr>sub_id = uid u, isAdmin = True\<rparr>"
  assume h: "admin_only r \<and> json_body req' = BodyParsed \<and>
             authorization req' = Some (''Bearer '' @ jwt_sign e ?P) \<and>
             CHR '' '' \<notin> set (jwt_sign e ?P) \<and>
             jwt_verify e (jwt_sign e ?P) = Some ?P"
  then have b: "bearer (''Bearer '' @ jwt_sign e ?P) = Some (jwt_sign e ?P)"
    by (intro bearer_scheme) simp
  have v: "verifyToken e (authorization req') = Inr ?P"
    using h b by (simp add: verifyToken_def truthy_def)
  have a: "\<And>r. app e w' r req' = serve e w' r req'"
    using h by (simp add: app_parsed)
  {
    assume u: "r = UpdateProduct \<and> upload req' \<noteq> UploadError \<and>
                  castObjectId e (params_id req') = Some i \<and>
                  findById (products w') i = Some p"
    show "status (snd (app e w' r req')) = 200"
      using u unfolding a
      by (cases "upload req'")
         (auto simp add: serve_def v uploadMiddleware_def put_products_def Let_def
            case_prod_beta reply_def)
    show "last (trace (fst (app e w' r req'))) = DbUpdate i"
      using u unfolding a
      by (cases "upload req'")
         (auto simp add: serve_def v uploadMiddleware_def put_products_def Let_def
            case_prod_beta findByIdAndUpdate_def products_destroy split: option.splits)
  }
  {
    assume d: "r = DeleteProduct \<and> castObjectId e (params_id req') = Some i \<and>
                  findById (products w') i = Some p"
    show "snd (app e w' r req') = reply 200 (Message ProductDeleted)"
      using d unfolding a by (simp add: serve_def v delete_products_def Let_def)
    show "Suc (length (products (fst (app e w' r req')))) = length (products w')"
      using d length_remove_doc [of "products w'" i p] unfolding a
      by (simp add: serve_def v delete_products_def Let_def findByIdAndDelete_def
          products_destroy split: option.splits)
  }
  {
    assume t: "r = ToggleFeatured \<and> castObjectId e (params_id req') = Some i \<and>
                  findById (products w') i = Some p"
    show "snd (app e w' r req') =
            reply 200 (Doc (Some (p\<lparr>featured := set_field e (body_featured req') (featured p)\<rparr>)))"
      using t unfolding a
      by (simp add: serve_def v patch_products_def findByIdAndUpdate_def)
  }
qed

theorem login_token_claims_admin_witness:
  "account_isAdmin \<lparr>uid = 1, email = ''owner@shop.test'', password = ''$2a$secret'',
       account_isAdmin = False\<rparr> = False
   \<and> post_login env_cloud (shop []) (bare_request\<lparr>body_password := Some ''secret''\<rparr>)
     = (shop [], reply 200 (TokenUser ''admin.jwt''
          \<lparr>uid = 1, email = ''owner@shop.test'', password = ''$2a$secret'',
           account_isAdmin = False\<rparr>))
   \<and> authorization admin_request = Some (''Bearer '' @ ''admin.jwt'')
   \<and> verifyToken env_cloud (authorization admin_request) = Inr \<lparr>sub_id = 1, isAdmin = True\<rparr>
   \<and> snd (app env_cloud (shop [chair 1]) DeleteProduct admin_request)
       = reply 200 (Message ProductDeleted)"
proof -
  let ?u = "\<lparr>uid = 1, email = ''owner@shop.test'', password = ''$2a$secret'', account_isAdmin = False\<rparr>"
  let ?r = "bare_request\<lparr>body_password := Some ''secret''\<rparr>"
  let ?P = "\<lparr>sub_id = uid ?u, isAdmin = True\<rparr>"
  have f: "findOne (users (shop [])) (body_email ?r) = Some ?u"
    by (simp add: findOne_def shop_def bare_request_def)
  have p: "body_password ?r = Some ''secret''"
    by simp
  have c: "bcrypt_compare env_cloud ''secret'' (password ?u)"
    by (simp add: env_cloud_def)
  have s: "\<And>n. jwt_sign env_cloud \<lparr>sub_id = n, isAdmin = True\<rparr> = ''admin.jwt''"
    by (simp add: env_cloud_def)
  have hdr: "authorization admin_request = Some (''Bearer '' @ ''admin.jwt'')"
    by (simp add: admin_request_def)
  have h: "admin_only DeleteProduct \<and> json_body admin_request = BodyParsed \<and>
           authorization admin_request = Some (''Bearer '' @ jwt_sign env_cloud ?P) \<and>
           CHR '' '' \<notin> set (jwt_sign env_cloud ?P) \<and>
           jwt_verify env_cloud (jwt_sign env_cloud ?P) = Some ?P"
    unfolding s
    by (simp add: admin_only_def admin_request_def parsed_bare env_cloud_def)
  have d: "castObjectId env_cloud (params_id admin_request) = Some 1 \<and>
           findById (products (shop [chair 1])) 1 = Some (chair 1)"
    by (simp add: env_cloud_def admin_request_def bare_request_def findById_def shop_def
        chair_def)
  note t = login_token_claims_admin [OF f p c]
  note t1 = t [THEN conjunct1]
  note t2 = t [THEN conjunct2, THEN spec, THEN spec, THEN spec, THEN mp, OF h,
      of "shop [chair 1]"]
  from t2 have v: "verifyToken env_cloud (authorization admin_request) = Inr ?P"
    by blast
  from t2 d have del: "snd (app env_cloud (shop [chair 1]) DeleteProduct admin_request)
       = reply 200 (Message ProductDeleted)"
    by blast
  from t1 v del hdr show ?thesis
    by (simp add: s)
qed

end
